theory Spec2Isabelle
  imports Complex_Main
begin

section \<open>nbviewer request handlers (nbviewer/handlers.py)\<close>

text \<open>
  A shallow embedding of the Tornado request handlers of \<^verbatim>\<open>nbviewer/handlers.py\<close>:
  the URL routing table, the \<^verbatim>\<open>cached\<close> decorator, \<^verbatim>\<open>cache_and_finish\<close>,
  \<^verbatim>\<open>finish_notebook\<close> and the \<^verbatim>\<open>get\<close> method of every handler of the table.

  Strings are byte strings (\<^typ>\<open>string\<close>). Values decoded from JSON are \<open>pyval\<close>s, and
  every Python exception the handlers can raise is a value of \<open>exn\<close>. The collaborators a
  handler reaches through \<^verbatim>\<open>self.settings\<close> (HTTP client, GitHub client, render pool, jinja
  environment) and the library functions it calls (\<^verbatim>\<open>json.loads\<close>, \<^verbatim>\<open>base64.decodestring\<close>,
  \<^verbatim>\<open>bytes.decode\<close>) are fields of the record \<open>env\<close>: every theorem holds for all of them.
\<close>

subsection \<open>Python values and exceptions\<close>

text \<open>
  The result of \<^verbatim>\<open>json.loads\<close>: a string, a list, a dict (an association list whose keys
  are distinct, see \<open>is_dict\<close>), or any other scalar (number, boolean, null), which the
  handlers only ever format with \<^verbatim>\<open>%s\<close>; \<open>Atom\<close> carries that text.
\<close>

datatype pyval =
    Str string
  | Atom string
  | List "pyval list"
  | Dict "(string \<times> pyval) list"

text \<open>
  \<open>HTTPError\<close> is \<^verbatim>\<open>tornado.web.HTTPError(status)\<close>, the exception the handlers raise
  themselves. \<open>FetchFailed\<close> is whatever \<^verbatim>\<open>response.rethrow()\<close> raises: the error object of
  the HTTP client (\<^verbatim>\<open>tornado.httpclient.HTTPError\<close>, a different class), with the upstream
  status code when there is one.
\<close>

datatype client_error = HTTPClientError nat | ConnectionFailed

datatype exn =
    HTTPError nat
  | FetchFailed client_error
  | KeyError string
  | TypeError
  | AttributeError
  | NbFormatError
  | OtherError string

fun subscript :: "pyval \<Rightarrow> string \<Rightarrow> exn + pyval" where
  "subscript (Dict kvs) k = (case map_of kvs k of None \<Rightarrow> Inl (KeyError k) | Some v \<Rightarrow> Inr v)"
| "subscript v k = Inl TypeError"

fun py_len :: "pyval \<Rightarrow> exn + nat" where
  "py_len (Str s) = Inr (length s)"
| "py_len (List xs) = Inr (length xs)"
| "py_len (Dict kvs) = Inr (length kvs)"
| "py_len (Atom a) = Inl TypeError"

fun keys :: "pyval \<Rightarrow> exn + string list" where
  "keys (Dict kvs) = Inr (map fst kvs)"
| "keys v = Inl AttributeError"

fun items :: "pyval \<Rightarrow> exn + (string \<times> pyval) list" where
  "items (Dict kvs) = Inr kvs"
| "items v = Inl AttributeError"

text \<open>Iteration (\<^verbatim>\<open>for x in v\<close>): a dict yields its keys, a string its characters.\<close>

fun py_iter :: "pyval \<Rightarrow> exn + pyval list" where
  "py_iter (List xs) = Inr xs"
| "py_iter (Dict kvs) = Inr (map (\<lambda>kv. Str (fst kv)) kvs)"
| "py_iter (Str s) = Inr (map (\<lambda>c. Str [c]) s)"
| "py_iter (Atom a) = Inl TypeError"

text \<open>A string method called on a value (\<^verbatim>\<open>.encode\<close>, \<^verbatim>\<open>.endswith\<close>) needs a string.\<close>

fun as_str :: "pyval \<Rightarrow> exn + string" where
  "as_str (Str s) = Inr s"
| "as_str v = Inl AttributeError"

text \<open>\<^verbatim>\<open>isinstance(v, list)\<close>\<close>

fun is_list :: "pyval \<Rightarrow> bool" where
  "is_list (List xs) = True"
| "is_list v = False"

definition is_dict :: "(string \<times> pyval) list \<Rightarrow> bool" where
  "is_dict kvs = distinct (map fst kvs)"

definition endswith :: "string \<Rightarrow> string \<Rightarrow> bool" where
  "endswith s suffix = (length suffix \<le> length s \<and> drop (length s - length suffix) s = suffix)"

text \<open>\<^verbatim>\<open>s.rstrip('/')\<close> removes every trailing slash.\<close>

definition rstrip_slash :: "string \<Rightarrow> string" where
  "rstrip_slash s = rev (dropWhile (\<lambda>c. c = CHR ''/'') (rev s))"

text \<open>\<^verbatim>\<open>s.split('/')\<close>: the pieces between the slashes, empty pieces included.\<close>

fun split_slash :: "string \<Rightarrow> string list" where
  "split_slash [] = [[]]"
| "split_slash (c # cs) =
     (if c = CHR ''/'' then [] # split_slash cs
      else (case split_slash cs of [] \<Rightarrow> [[c]] | p # ps \<Rightarrow> (c # p) # ps))"

text \<open>\<^verbatim>\<open>int(x)\<close> on a float truncates toward zero.\<close>

definition py_int :: "real \<Rightarrow> int" where
  "py_int x = (if 0 \<le> x then \<lfloor>x\<rfloor> else \<lceil>x\<rceil>)"

subsection \<open>Route patterns\<close>

text \<open>
  The regular expressions of the routing table use only the constructs below, so a pattern
  is a list of them. Matching is the backtracking search of Python's \<^verbatim>\<open>re\<close>: a greedy
  construct tries its longest match first and gives characters back while the rest of the
  pattern fails. Tornado anchors every pattern at both ends and passes the captured groups
  to \<^verbatim>\<open>get\<close> as positional arguments. A request path holds no line feed, so \<^verbatim>\<open>.\<close> matches
  every character of it and \<^verbatim>\<open>$\<close> only its end; on its bytes \<^verbatim>\<open>\w\<close> is \<^verbatim>\<open>[A-Za-z0-9_]\<close>.
\<close>

datatype cls = Word | NotSlash | Hex

definition is_word :: "char \<Rightarrow> bool" where
  "is_word c = (c \<in> set ''abcdefghijklmnopqrstuvwxyzABCDEFGHIJKLMNOPQRSTUVWXYZ0123456789_'')"

fun in_cls :: "cls \<Rightarrow> char \<Rightarrow> bool" where
  "in_cls Word c = (is_word c \<or> c = CHR ''-'')"
| "in_cls NotSlash c = (c \<noteq> CHR ''/'')"
| "in_cls Hex c = (c \<in> set ''abcdefABCDEF0123456789'')"

datatype rx =
    Lit string
  | AnyChar
  | Opt char
  | OptGroup char
  | Alt "string list"
  | Group cls
  | Rest

type_synonym cont = "string \<Rightarrow> string list option"

fun or_else :: "'a option \<Rightarrow> 'a option \<Rightarrow> 'a option" where
  "or_else (Some x) y = Some x"
| "or_else None y = y"

text \<open>A literal: the input goes on after it, or the match fails.\<close>

fun strip_prefix :: "string \<Rightarrow> string \<Rightarrow> string option" where
  "strip_prefix [] s = Some s"
| "strip_prefix (c # cs) [] = None"
| "strip_prefix (c # cs) (x # xs) = (if c = x then strip_prefix cs xs else None)"

definition lit :: "string \<Rightarrow> cont \<Rightarrow> cont" where
  "lit l k s = (case strip_prefix l s of None \<Rightarrow> None | Some s' \<Rightarrow> k s')"

text \<open>An unescaped \<^verbatim>\<open>.\<close> outside a group: any one character.\<close>

fun any_char :: "cont \<Rightarrow> cont" where
  "any_char k [] = None"
| "any_char k (x # xs) = k xs"

fun alt :: "string list \<Rightarrow> cont \<Rightarrow> cont" where
  "alt [] k s = None"
| "alt (l # ls) k s = or_else (lit l k s) (alt ls k s)"

text \<open>\<^verbatim>\<open>c?\<close>: take the character when it is there, and go on without it if that fails.\<close>

fun opt :: "char \<Rightarrow> cont \<Rightarrow> cont" where
  "opt c k [] = k []"
| "opt c k (x # xs) = (if x = c then or_else (k xs) (k (x # xs)) else k (x # xs))"

fun opt_group :: "char \<Rightarrow> cont \<Rightarrow> cont" where
  "opt_group c k [] = map_option (Cons []) (k [])"
| "opt_group c k (x # xs) =
     (if x = c then or_else (map_option (Cons [c]) (k xs)) (map_option (Cons []) (k (x # xs)))
      else map_option (Cons []) (k (x # xs)))"

text \<open>
  \<^verbatim>\<open>([...]+)\<close>: \<open>acc\<close> is what the group has taken so far. It takes characters of the class
  as long as it can; where the rest of the pattern fails it gives the last one back,
  down to one character.
\<close>

fun group :: "cls \<Rightarrow> cont \<Rightarrow> string \<Rightarrow> cont" where
  "group c k acc [] = (if acc = [] then None else map_option (Cons acc) (k []))"
| "group c k acc (x # xs) =
     (let stop = (if acc = [] then None else map_option (Cons acc) (k (x # xs)))
      in if in_cls c x then or_else (group c k (acc @ [x]) xs) stop else stop)"

text \<open>\<^verbatim>\<open>(.*)\<close>: as \<open>group\<close>, over every character and down to the empty string.\<close>

fun rest :: "cont \<Rightarrow> string \<Rightarrow> cont" where
  "rest k acc [] = map_option (Cons acc) (k [])"
| "rest k acc (x # xs) = or_else (rest k (acc @ [x]) xs) (map_option (Cons acc) (k (x # xs)))"

fun rx_step :: "rx \<Rightarrow> cont \<Rightarrow> cont" where
  "rx_step (Lit l) k = lit l k"
| "rx_step AnyChar k = any_char k"
| "rx_step (Opt c) k = opt c k"
| "rx_step (OptGroup c) k = opt_group c k"
| "rx_step (Alt ls) k = alt ls k"
| "rx_step (Group c) k = group c k []"
| "rx_step Rest k = rest k []"

definition at_end :: cont where
  "at_end s = (if s = [] then Some [] else None)"

text \<open>\<open>rx_match p s\<close>: the groups of the match of the whole of \<open>s\<close> against \<open>p\<close>, if any.\<close>

fun rx_match :: "rx list \<Rightarrow> cont" where
  "rx_match [] = at_end"
| "rx_match (r # rs) = rx_step r (rx_match rs)"

datatype handler =
    IndexHandler
  | FAQHandler
  | GitHubRedirectHandler
  | RawGitHubURLHandler
  | URLHandler
  | AddSlashHandler
  | GitHubUserHandler
  | GitHubRepoHandler
  | RemoveSlashHandler
  | GitHubBlobHandler
  | GitHubTreeHandler
  | GistHandler
  | GistRedirectHandler

text \<open>
  The table \<^verbatim>\<open>handlers\<close>, in the order of the source. The dot of \<^verbatim>\<open>'/index.html'\<close> is not
  escaped there, so it stands for any character.
\<close>

definition handlers :: "(rx list \<times> handler) list" where
  "handlers =
    [([Lit ''/''], IndexHandler),
     ([Lit ''/index'', AnyChar, Lit ''html''], IndexHandler),
     ([Lit ''/faq''], FAQHandler),
     ([Lit ''/url'', Opt CHR ''s'', Lit ''/github.com/'', Group NotSlash, Lit ''/'', Group NotSlash,
       Lit ''/'', Alt [''tree'', ''blob''], Lit ''/'', Group NotSlash, Lit ''/'', Rest],
      GitHubRedirectHandler),
     ([Lit ''/url'', Opt CHR ''s'', Lit ''/raw'', Opt CHR ''.'', Lit ''github.com/'', Group NotSlash,
       Lit ''/'', Group NotSlash, Lit ''/'', Rest],
      RawGitHubURLHandler),
     ([Lit ''/url'', OptGroup CHR ''s'', Lit ''/'', Rest], URLHandler),
     ([Lit ''/github/'', Group Word], AddSlashHandler),
     ([Lit ''/github/'', Group Word, Lit ''/''], GitHubUserHandler),
     ([Lit ''/github/'', Group Word, Lit ''/'', Group Word], AddSlashHandler),
     ([Lit ''/github/'', Group Word, Lit ''/'', Group Word, Lit ''/''], GitHubRepoHandler),
     ([Lit ''/github/'', Group Word, Lit ''/'', Group NotSlash, Lit ''/blob/'', Group NotSlash,
       Lit ''/'', Rest, Lit ''/''],
      RemoveSlashHandler),
     ([Lit ''/github/'', Group Word, Lit ''/'', Group NotSlash, Lit ''/blob/'', Group NotSlash,
       Lit ''/'', Rest],
      GitHubBlobHandler),
     ([Lit ''/github/'', Group Word, Lit ''/'', Group NotSlash, Lit ''/tree/'', Group NotSlash],
      AddSlashHandler),
     ([Lit ''/github/'', Group Word, Lit ''/'', Group NotSlash, Lit ''/tree/'', Group NotSlash,
       Lit ''/'', Rest],
      GitHubTreeHandler),
     ([Lit ''/gist/'', Group Hex], GistHandler),
     ([Lit ''/gist/'', Group Hex, Lit ''/'', Rest], GistHandler),
     ([Lit ''/'', Group Hex], GistRedirectHandler),
     ([Lit ''/'', Group Hex, Lit ''/'', Rest], GistRedirectHandler)]"

text \<open>Tornado takes the first entry of the table whose pattern matches the request path.\<close>

fun find_handler :: "(rx list \<times> handler) list \<Rightarrow> string \<Rightarrow> (handler \<times> string list) option" where
  "find_handler [] p = None"
| "find_handler ((pat, h) # hs) p =
     (case rx_match pat p of Some groups \<Rightarrow> Some (h, groups) | None \<Rightarrow> find_handler hs p)"

subsection \<open>Requests, responses and the state of a request\<close>

text \<open>
  A request is its URI and the time at which it is served: both the store's clock at
  \<^verbatim>\<open>cache.get\<close> and \<^verbatim>\<open>time.time()\<close> in \<^verbatim>\<open>cache_and_finish\<close> read \<open>now\<close>, a real number as the
  float is. Tornado matches the routing table against \<^verbatim>\<open>request.path\<close>, the URI up to its
  query string, while the handlers read \<^verbatim>\<open>request.uri\<close>.
\<close>

record request =
  uri :: string
  now :: real

definition path_of :: "string \<Rightarrow> string" where
  "path_of u = takeWhile (\<lambda>c. c \<noteq> CHR ''?'') u"

text \<open>What a client call returns: \<^verbatim>\<open>response.error\<close> and \<^verbatim>\<open>response.body\<close>.\<close>

record response =
  error :: "client_error option"
  body :: string

text \<open>
  The outbound calls of a request, logged in the order they are made: the two provider
  clients and the render pool.
\<close>

datatype call =
    Fetch string
  | GetGist string
  | GetRepos string
  | GetContents string string string string
  | Render pyval pyval

text \<open>
  Modelled from the spec: \<^verbatim>\<open>get(key) -> bytes | absent\<close> of the cache store
  \<^verbatim>\<open>settings['cache']\<close>, which is not part of handlers.py. An entry is a value with an absolute
  expiry timestamp; the store gives the value out until that time and no longer from then on.
\<close>

type_synonym store = "string \<Rightarrow> (string \<times> int) option"

definition cache_get :: "store \<Rightarrow> real \<Rightarrow> string \<Rightarrow> string option" where
  "cache_get c t k =
     (case c k of None \<Rightarrow> None
      | Some (v, expire_at) \<Rightarrow> if t < of_int expire_at then Some v else None)"

text \<open>
  Modelled from the spec: \<^verbatim>\<open>set(key, value, expire_at)\<close> of the same store. An entry is
  never changed in place: a later \<^verbatim>\<open>set\<close> replaces it whole.
\<close>

definition cache_set :: "store \<Rightarrow> string \<Rightarrow> string \<Rightarrow> int \<Rightarrow> store" where
  "cache_set c k v expire_at = c(k \<mapsto> (v, expire_at))"

text \<open>
  The state a handler works on: the shared cache, the response under construction (status,
  headers, write buffer) and the log of outbound calls.
\<close>

record state =
  cache :: store
  status :: nat
  headers :: "(string \<times> string) list"
  written :: string
  calls :: "call list"

text \<open>Tornado starts every response with status 200 and nothing written.\<close>

definition fresh :: "store \<Rightarrow> state" where
  "fresh c = \<lparr>cache = c, status = 200, headers = [], written = [], calls = []\<rparr>"

text \<open>
  The settings of the application and the library functions the handlers call. They are
  parameters: nothing is assumed about what they return.
\<close>

record env =
  client_fetch :: "string \<Rightarrow> response"
  get_gist :: "string \<Rightarrow> response"
  get_repos :: "string \<Rightarrow> response"
  get_contents :: "string \<Rightarrow> string \<Rightarrow> string \<Rightarrow> string \<Rightarrow> response"
  render_notebook :: "pyval \<Rightarrow> pyval \<Rightarrow> exn + string \<times> (string \<times> pyval) list"
  render_template :: "string \<Rightarrow> (string \<times> pyval) list \<Rightarrow> string"
  cache_expiry_setting :: "real option"
  json_loads :: "string \<Rightarrow> exn + pyval"
  decode_utf8 :: "string \<Rightarrow> exn + string"
  b64decode :: "string \<Rightarrow> exn + string"
  py_repr :: "pyval \<Rightarrow> string"
  url_unescape :: "string \<Rightarrow> string"

text \<open>\<^verbatim>\<open>self.settings.get('cache_expiry', 60)\<close>\<close>

definition cache_expiry :: "env \<Rightarrow> real" where
  "cache_expiry env = (case cache_expiry_setting env of None \<Rightarrow> 60 | Some e \<Rightarrow> e)"

text \<open>\<^verbatim>\<open>'%s' % v\<close>: a string is itself; lists and dicts print as their \<^verbatim>\<open>repr\<close>.\<close>

fun py_str :: "env \<Rightarrow> pyval \<Rightarrow> string" where
  "py_str env (Str s) = s"
| "py_str env (Atom a) = a"
| "py_str env v = py_repr env v"

text \<open>
  \<^verbatim>\<open>tornado.escape.utf8\<close> encodes text and leaves a byte string as it is; the strings of the
  model are byte strings.
\<close>

definition utf8 :: "string \<Rightarrow> string" where
  "utf8 s = s"

subsection \<open>Actions: state and exceptions\<close>

text \<open>
  A method is a function from the state to the exception it raised or the value it
  returned, and the state it left behind (what a method did before it raised stays done).
\<close>

type_synonym 'a action = "state \<Rightarrow> (exn + 'a) \<times> state"

definition ok :: "'a \<Rightarrow> 'a action" where
  "ok x = (\<lambda>s. (Inr x, s))"

definition fail :: "exn \<Rightarrow> 'a action" where
  "fail e = (\<lambda>s. (Inl e, s))"

definition pure :: "exn + 'a \<Rightarrow> 'a action" where
  "pure r = (\<lambda>s. (r, s))"

definition effect :: "(state \<Rightarrow> state) \<Rightarrow> unit action" where
  "effect f = (\<lambda>s. (Inr (), f s))"

definition andthen :: "'a action \<Rightarrow> ('a \<Rightarrow> 'b action) \<Rightarrow> 'b action" where
  "andthen m f = (\<lambda>s. case m s of (Inl e, s') \<Rightarrow> (Inl e, s') | (Inr x, s') \<Rightarrow> f x s')"

definition try_except :: "'a action \<Rightarrow> (exn \<Rightarrow> 'a action) \<Rightarrow> 'a action" where
  "try_except m h = (\<lambda>s. case m s of (Inl e, s') \<Rightarrow> h e s' | (Inr x, s') \<Rightarrow> (Inr x, s'))"

text \<open>The same for code that touches no state: the first exception ends it.\<close>

fun bind_e :: "exn + 'a \<Rightarrow> ('a \<Rightarrow> exn + 'b) \<Rightarrow> exn + 'b" where
  "bind_e (Inl e) f = Inl e"
| "bind_e (Inr x) f = f x"

fun map_e :: "('a \<Rightarrow> exn + 'b) \<Rightarrow> 'a list \<Rightarrow> exn + 'b list" where
  "map_e f [] = Inr []"
| "map_e f (x # xs) = bind_e (f x) (\<lambda>y. bind_e (map_e f xs) (\<lambda>ys. Inr (y # ys)))"

text \<open>An outbound call: logged, and answered by the environment.\<close>

definition call_out :: "call \<Rightarrow> 'a \<Rightarrow> 'a action" where
  "call_out c r = (\<lambda>s. (Inr r, s\<lparr>calls := calls s @ [c]\<rparr>))"

text \<open>\<^verbatim>\<open>if response.error: response.rethrow()\<close>\<close>

definition rethrow :: "response \<Rightarrow> unit action" where
  "rethrow r = (case error r of Some e \<Rightarrow> fail (FetchFailed e) | None \<Rightarrow> ok ())"

subsection \<open>What Tornado's RequestHandler does\<close>

text \<open>
  \<^verbatim>\<open>self.write(chunk)\<close> appends \<^verbatim>\<open>utf8(chunk)\<close> to the write buffer; \<^verbatim>\<open>self.set_header\<close>
  replaces the header; \<^verbatim>\<open>self.redirect(url)\<close> answers 302 with the Location header (every
  target of this file is a path that starts with one slash, which Tornado's \<^verbatim>\<open>urljoin\<close>
  against the request URI leaves as it is).
\<close>

definition write_chunk :: "string \<Rightarrow> state \<Rightarrow> state" where
  "write_chunk chunk s = s\<lparr>written := written s @ utf8 chunk\<rparr>"

definition set_header :: "string \<Rightarrow> string \<Rightarrow> state \<Rightarrow> state" where
  "set_header k v s = s\<lparr>headers := (k, v) # filter (\<lambda>h. fst h \<noteq> k) (headers s)\<rparr>"

definition redirect :: "string \<Rightarrow> state \<Rightarrow> state" where
  "redirect url s = set_header ''Location'' (utf8 url) (s\<lparr>status := 302\<rparr>)"

text \<open>
  The status the client sees. Tornado answers an uncaught \<^verbatim>\<open>tornado.web.HTTPError\<close> with its
  status code and every other uncaught exception with 500
  (\<^verbatim>\<open>RequestHandler._handle_request_exception\<close>); a method that returns is answered with the
  status it has set.
\<close>

fun client_status :: "(exn + unit) \<times> state \<Rightarrow> nat" where
  "client_status (Inl (HTTPError code), s) = code"
| "client_status (Inl e, s) = 500"
| "client_status (Inr u, s) = status s"

text \<open>The target of the redirect a request was answered with, if it was.\<close>

definition location :: "(exn + unit) \<times> state \<Rightarrow> string option" where
  "location r =
     (case r of (Inl e, s) \<Rightarrow> None
      | (Inr u, s) \<Rightarrow> if status s = 302 then map_of (headers s) ''Location'' else None)"

subsection \<open>BaseHandler, the cached decorator, RenderingHandler\<close>

definition cache_and_finish :: "env \<Rightarrow> request \<Rightarrow> string \<Rightarrow> unit action" where
  "cache_and_finish env req content =
     effect (\<lambda>s. (write_chunk content s)
       \<lparr>cache := cache_set (cache s) (utf8 (uri req)) (utf8 content)
          (py_int (now req + cache_expiry env))\<rparr>)"

definition cached :: "request \<Rightarrow> unit action \<Rightarrow> unit action" where
  "cached req wrapped =
     (\<lambda>s. case cache_get (cache s) (now req) (uri req) of
        Some cached_response \<Rightarrow> effect (write_chunk cached_response) s
      | None \<Rightarrow> wrapped s)"

text \<open>
  \<^verbatim>\<open>render_template('notebook.html', body=nbhtml, **config)\<close> calls
  \<^verbatim>\<open>render_template(self, name, **ns)\<close>: Python refuses the call with a \<^verbatim>\<open>TypeError\<close> when
  \<^verbatim>\<open>config\<close> holds a key that is given already, \<^verbatim>\<open>self\<close>, \<^verbatim>\<open>name\<close> or \<^verbatim>\<open>body\<close>.
\<close>

definition keyword_clash :: "(string \<times> pyval) list \<Rightarrow> bool" where
  "keyword_clash config =
     (''self'' \<in> set (map fst config) \<or> ''name'' \<in> set (map fst config)
      \<or> ''body'' \<in> set (map fst config))"

text \<open>The message argument of \<^verbatim>\<open>finish_notebook\<close> is only logged and is left out.\<close>

definition finish_notebook :: "env \<Rightarrow> request \<Rightarrow> pyval \<Rightarrow> pyval \<Rightarrow> unit action" where
  "finish_notebook env req nbjson url =
     andthen
       (try_except
         (andthen (call_out (Render nbjson url) (render_notebook env nbjson url)) pure)
         (\<lambda>e. if e = NbFormatError then fail (HTTPError 400) else fail e))
       (\<lambda>(nbhtml, config).
         if keyword_clash config then fail TypeError
         else cache_and_finish env req
                (render_template env ''notebook.html'' ((''body'', Str nbhtml) # config)))"

subsection \<open>The handlers\<close>

definition IndexHandler_get :: "env \<Rightarrow> unit action" where
  "IndexHandler_get env = effect (write_chunk (render_template env ''index.html'' []))"

definition FAQHandler_get :: "env \<Rightarrow> unit action" where
  "FAQHandler_get env = effect (write_chunk (render_template env ''faq.md'' []))"

text \<open>
  A method decorated with \<^verbatim>\<open>@cached\<close> is given twice: \<open>_body\<close> is the method as written,
  and the name of the source is \<open>cached\<close> applied to it.
\<close>

definition URLHandler_get_body :: "env \<Rightarrow> request \<Rightarrow> string \<Rightarrow> string \<Rightarrow> unit action" where
  "URLHandler_get_body env req secure url =
     (let proto = ''http'' @ secure;
          remote_url = proto @ ''://'' @ url
      in andthen (call_out (Fetch remote_url) (client_fetch env remote_url)) (\<lambda>response.
         andthen (rethrow response) (\<lambda>_.
         andthen (pure (decode_utf8 env (body response))) (\<lambda>nbjson.
         finish_notebook env req (Str nbjson) (Str remote_url)))))"

definition URLHandler_get :: "env \<Rightarrow> request \<Rightarrow> string \<Rightarrow> string \<Rightarrow> unit action" where
  "URLHandler_get env req secure url = cached req (URLHandler_get_body env req secure url)"

text \<open>The listing of a gist: one entry per item of \<^verbatim>\<open>files\<close>.\<close>

definition gist_entry :: "env \<Rightarrow> pyval \<Rightarrow> string \<times> pyval \<Rightarrow> pyval" where
  "gist_entry env gist_id item =
     Dict [(''path'', Str (fst item)),
           (''url'', Str (''/'' @ py_str env gist_id @ ''/'' @ fst item))]"

text \<open>
  \<^verbatim>\<open>list(files.keys())[0]\<close> is read only where \<^verbatim>\<open>len(files) == 1\<close>, so the list of keys of
  a dict is not empty there. The \<^verbatim>\<open>elif filename:\<close> of the source is kept as it is written.
\<close>

definition GistHandler_get_body :: "env \<Rightarrow> request \<Rightarrow> string \<Rightarrow> string \<Rightarrow> unit action" where
  "GistHandler_get_body env req gist_id filename =
     andthen (call_out (GetGist gist_id) (get_gist env gist_id)) (\<lambda>response.
     andthen (rethrow response) (\<lambda>_.
     andthen (pure (bind_e (decode_utf8 env (body response)) (json_loads env))) (\<lambda>data.
     andthen (pure (subscript data ''id'')) (\<lambda>gist_id.
     andthen (pure (subscript data ''files'')) (\<lambda>files.
     andthen (pure (bind_e (py_len files) (\<lambda>n.
                if n = 1 then bind_e (keys files) (\<lambda>ks. Inr (hd ks)) else Inr filename)))
       (\<lambda>filename.
     if filename \<noteq> [] then
       andthen (pure (subscript files filename)) (\<lambda>file.
       andthen (pure (subscript file ''content'')) (\<lambda>nbjson.
       andthen (pure (subscript file ''raw_url'')) (\<lambda>raw_url.
       finish_notebook env req nbjson raw_url)))
     else if filename \<noteq> [] then
       fail (HTTPError 404)
     else
       andthen (pure (items files)) (\<lambda>its.
       cache_and_finish env req
         (render_template env ''gistlist.html''
            [(''entries'', List (map (gist_entry env gist_id) its))]))))))))"

definition GistHandler_get :: "env \<Rightarrow> request \<Rightarrow> string \<Rightarrow> string \<Rightarrow> unit action" where
  "GistHandler_get env req gist_id filename = cached req (GistHandler_get_body env req gist_id filename)"

definition GistRedirectHandler_get :: "string \<Rightarrow> string \<Rightarrow> unit action" where
  "GistRedirectHandler_get gist_id file =
     (let new_url = ''/gist/'' @ gist_id;
          new_url = (if file \<noteq> [] then new_url @ ''/'' @ file else new_url)
      in effect (redirect new_url))"

definition RawGitHubURLHandler_get :: "string \<Rightarrow> string \<Rightarrow> string \<Rightarrow> unit action" where
  "RawGitHubURLHandler_get user repo path =
     (let new_url = ''/github/'' @ user @ ''/'' @ repo @ ''/blob/'' @ path
      in effect (redirect new_url))"

definition GitHubRedirectHandler_get ::
  "string \<Rightarrow> string \<Rightarrow> string \<Rightarrow> string \<Rightarrow> unit action" where
  "GitHubRedirectHandler_get user repo ref path =
     (let new_url = ''/github/'' @ user @ ''/'' @ repo @ ''/'' @ ref @ ''/'' @ path
      in effect (redirect new_url))"

definition user_entry :: "pyval \<Rightarrow> exn + pyval" where
  "user_entry repo =
     bind_e (subscript repo ''name'') (\<lambda>url.
     bind_e (subscript repo ''name'') (\<lambda>name.
     Inr (Dict [(''url'', url), (''name'', name)])))"

definition GitHubUserHandler_get_body :: "env \<Rightarrow> request \<Rightarrow> string \<Rightarrow> unit action" where
  "GitHubUserHandler_get_body env req user =
     andthen (call_out (GetRepos user) (get_repos env user)) (\<lambda>response.
     andthen (rethrow response) (\<lambda>_.
     andthen (pure (bind_e (decode_utf8 env (body response)) (json_loads env))) (\<lambda>repos.
     andthen (pure (bind_e (py_iter repos) (map_e user_entry))) (\<lambda>entries.
     cache_and_finish env req
       (render_template env ''userview.html'' [(''entries'', List entries)])))))"

definition GitHubUserHandler_get :: "env \<Rightarrow> request \<Rightarrow> string \<Rightarrow> unit action" where
  "GitHubUserHandler_get env req user = cached req (GitHubUserHandler_get_body env req user)"

definition GitHubRepoHandler_get :: "string \<Rightarrow> string \<Rightarrow> unit action" where
  "GitHubRepoHandler_get user repo =
     effect (redirect (''/github/'' @ user @ ''/'' @ repo @ ''/tree/master/''))"

text \<open>The breadcrumbs of a tree listing: \<^verbatim>\<open>base_url\<close> grows by one path segment per entry.\<close>

fun crumbs :: "string \<Rightarrow> string list \<Rightarrow> pyval list" where
  "crumbs base_url [] = []"
| "crumbs base_url (name # names) =
     (let base_url = base_url @ ''/'' @ name
      in Dict [(''url'', Str base_url), (''name'', Str name)] # crumbs base_url names)"

definition tree_entry :: "env \<Rightarrow> string \<Rightarrow> string \<Rightarrow> string \<Rightarrow> pyval \<Rightarrow> exn + pyval" where
  "tree_entry env user repo ref file =
     bind_e (subscript file ''name'') (\<lambda>name.
     bind_e (subscript file ''path'') (\<lambda>path.
     bind_e (subscript file ''type'') (\<lambda>type.
     Inr (Dict
       [(''name'', name),
        (''url'', Str (''/github/'' @ user @ ''/'' @ repo @ ''/''
                        @ (if type = Str ''dir'' then ''tree'' else ''blob'')
                        @ ''/'' @ ref @ ''/'' @ py_str env path)),
        (''class'', Str (if type = Str ''dir'' then ''icon-folder-open'' else ''icon-file''))]))))"

definition GitHubTreeHandler_get_body ::
  "env \<Rightarrow> request \<Rightarrow> string \<Rightarrow> string \<Rightarrow> string \<Rightarrow> string \<Rightarrow> unit action" where
  "GitHubTreeHandler_get_body env req user repo ref path =
     (if \<not> endswith (uri req) ''/'' then effect (redirect (uri req @ ''/''))
      else
        (let path = rstrip_slash path
         in andthen (call_out (GetContents user repo path ref) (get_contents env user repo path ref))
              (\<lambda>response.
            andthen (rethrow response) (\<lambda>_.
            andthen (pure (bind_e (decode_utf8 env (body response)) (json_loads env)))
              (\<lambda>contents.
            if \<not> is_list contents then
              effect (redirect
                (''/github/'' @ user @ ''/'' @ repo @ ''/blob/'' @ ref @ ''/'' @ path))
            else
              (let base_url = ''/github/'' @ user @ ''/'' @ repo @ ''/tree/'' @ ref;
                   path_list = Dict [(''url'', Str base_url), (''name'', Str repo)]
                     # (if path \<noteq> [] then crumbs base_url (split_slash path) else [])
               in andthen (pure (bind_e (py_iter contents) (map_e (tree_entry env user repo ref))))
                    (\<lambda>entries.
                  cache_and_finish env req
                    (render_template env ''treelist.html''
                       [(''entries'', List entries), (''path_list'', List path_list)]))))))))"

definition GitHubTreeHandler_get ::
  "env \<Rightarrow> request \<Rightarrow> string \<Rightarrow> string \<Rightarrow> string \<Rightarrow> string \<Rightarrow> unit action" where
  "GitHubTreeHandler_get env req user repo ref path =
     cached req (GitHubTreeHandler_get_body env req user repo ref path)"

text \<open>
  \<^verbatim>\<open>base64.decodestring(contents['content'].encode('ascii'))\<close>, the body of the first
  \<^verbatim>\<open>try\<close> of \<^verbatim>\<open>GitHubBlobHandler.get\<close>.
\<close>

definition decode_content :: "env \<Rightarrow> pyval \<Rightarrow> exn + string" where
  "decode_content env contents =
     bind_e (subscript contents ''content'') (\<lambda>c. bind_e (as_str c) (b64decode env))"

text \<open>
  Both \<^verbatim>\<open>except Exception\<close> clauses of \<^verbatim>\<open>GitHubBlobHandler.get\<close>: the log line reads
  \<^verbatim>\<open>contents['url']\<close>, then the handler raises \<^verbatim>\<open>web.HTTPError(400)\<close>.
\<close>

definition bad_request :: "pyval \<Rightarrow> exn \<Rightarrow> 'a action" where
  "bad_request contents e = andthen (pure (subscript contents ''url'')) (\<lambda>_. fail (HTTPError 400))"

definition GitHubBlobHandler_get_body ::
  "env \<Rightarrow> request \<Rightarrow> string \<Rightarrow> string \<Rightarrow> string \<Rightarrow> string \<Rightarrow> unit action" where
  "GitHubBlobHandler_get_body env req user repo ref path =
     andthen (call_out (GetContents user repo path ref) (get_contents env user repo path ref))
       (\<lambda>response.
     andthen (rethrow response) (\<lambda>_.
     andthen (pure (bind_e (decode_utf8 env (body response)) (json_loads env))) (\<lambda>contents.
     if is_list contents then
       effect (redirect
         (''/github/'' @ user @ ''/'' @ repo @ ''/tree/'' @ ref @ ''/'' @ path @ ''/''))
     else
       andthen (try_except (pure (decode_content env contents)) (bad_request contents))
         (\<lambda>filedata.
       andthen (pure (bind_e (subscript contents ''name'') as_str)) (\<lambda>name.
       if endswith name ''.ipynb'' then
         andthen (try_except (pure (decode_utf8 env filedata)) (bad_request contents))
           (\<lambda>nbjson.
         let raw_url = ''https://raw.github.com/'' @ user @ ''/'' @ repo @ ''/'' @ ref
                         @ ''/'' @ path
         in andthen (pure (subscript contents ''url'')) (\<lambda>_.
            finish_notebook env req (Str nbjson) (Str raw_url)))
       else
         andthen (effect (set_header ''Content-Type'' ''text/plain'')) (\<lambda>_.
         effect (write_chunk filedata)))))))"

definition GitHubBlobHandler_get ::
  "env \<Rightarrow> request \<Rightarrow> string \<Rightarrow> string \<Rightarrow> string \<Rightarrow> string \<Rightarrow> unit action" where
  "GitHubBlobHandler_get env req user repo ref path =
     cached req (GitHubBlobHandler_get_body env req user repo ref path)"

definition AddSlashHandler_get :: "request \<Rightarrow> unit action" where
  "AddSlashHandler_get req = effect (redirect (uri req @ ''/''))"

definition RemoveSlashHandler_get :: "request \<Rightarrow> unit action" where
  "RemoveSlashHandler_get req = effect (redirect (rstrip_slash (uri req)))"

subsection \<open>Serving a request\<close>

text \<open>
  Tornado calls \<^verbatim>\<open>get\<close> of the matched handler with the captured groups as positional
  arguments; a call with the wrong number of arguments is a \<^verbatim>\<open>TypeError\<close>.
\<close>

fun dispatch :: "env \<Rightarrow> request \<Rightarrow> handler \<Rightarrow> string list \<Rightarrow> unit action" where
  "dispatch env req IndexHandler args = (if args = [] then IndexHandler_get env else fail TypeError)"
| "dispatch env req FAQHandler args = (if args = [] then FAQHandler_get env else fail TypeError)"
| "dispatch env req AddSlashHandler args = AddSlashHandler_get req"
| "dispatch env req RemoveSlashHandler args = RemoveSlashHandler_get req"
| "dispatch env req GitHubRedirectHandler args =
     (case args of [user, repo, ref, path] \<Rightarrow> GitHubRedirectHandler_get user repo ref path
      | _ \<Rightarrow> fail TypeError)"
| "dispatch env req RawGitHubURLHandler args =
     (case args of [user, repo, path] \<Rightarrow> RawGitHubURLHandler_get user repo path
      | _ \<Rightarrow> fail TypeError)"
| "dispatch env req URLHandler args =
     (case args of [secure, url] \<Rightarrow> URLHandler_get env req secure url | _ \<Rightarrow> fail TypeError)"
| "dispatch env req GitHubUserHandler args =
     (case args of [user] \<Rightarrow> GitHubUserHandler_get env req user | _ \<Rightarrow> fail TypeError)"
| "dispatch env req GitHubRepoHandler args =
     (case args of [user, repo] \<Rightarrow> GitHubRepoHandler_get user repo | _ \<Rightarrow> fail TypeError)"
| "dispatch env req GitHubBlobHandler args =
     (case args of [user, repo, ref, path] \<Rightarrow> GitHubBlobHandler_get env req user repo ref path
      | _ \<Rightarrow> fail TypeError)"
| "dispatch env req GitHubTreeHandler args =
     (case args of [user, repo, ref, path] \<Rightarrow> GitHubTreeHandler_get env req user repo ref path
      | _ \<Rightarrow> fail TypeError)"
| "dispatch env req GistHandler args =
     (case args of [gist_id] \<Rightarrow> GistHandler_get env req gist_id []
      | [gist_id, filename] \<Rightarrow> GistHandler_get env req gist_id filename
      | _ \<Rightarrow> fail TypeError)"
| "dispatch env req GistRedirectHandler args =
     (case args of [gist_id] \<Rightarrow> GistRedirectHandler_get gist_id []
      | [gist_id, file] \<Rightarrow> GistRedirectHandler_get gist_id file
      | _ \<Rightarrow> fail TypeError)"

text \<open>
  One request: the first matching route, its groups percent-decoded, its handler; a path
  that no route matches is answered 404.
\<close>

definition serve :: "env \<Rightarrow> request \<Rightarrow> unit action" where
  "serve env req =
     (case find_handler handlers (path_of (uri req)) of
        None \<Rightarrow> fail (HTTPError 404)
      | Some (h, groups) \<Rightarrow> dispatch env req h (map (url_unescape env) groups))"

subsection \<open>An example world\<close>

text \<open>
  A small environment on which the theorems below are instantiated: one host with two
  notebooks, two gists, and one repository.
\<close>

definition ok_response :: "string \<Rightarrow> response" where
  "ok_response b = \<lparr>error = None, body = b\<rparr>"

definition not_found :: response where
  "not_found = \<lparr>error = Some (HTTPClientError 404), body = []\<rparr>"

definition example_gist2 :: pyval where
  "example_gist2 =
     Dict [(''id'', Str ''ab12cd34''),
           (''files'', Dict
              [(''a.ipynb'', Dict [(''content'', Str ''{nb}''), (''raw_url'', Str ''https://gist.example/a.ipynb'')]),
               (''notes.txt'', Dict [(''content'', Str ''hello''), (''raw_url'', Str ''https://gist.example/notes.txt'')])])]"

definition example_gist1 :: pyval where
  "example_gist1 =
     Dict [(''id'', Str ''c0ffee''),
           (''files'', Dict
              [(''a.ipynb'', Dict [(''content'', Str ''{nb}''), (''raw_url'', Str ''https://gist.example/a.ipynb'')])])]"

definition example_env :: env where
  "example_env =
     \<lparr>client_fetch = (\<lambda>url.
        if url = ''http://example.org/nb.ipynb'' then ok_response ''{nb}''
        else if url = ''http://example.org/bad.ipynb'' then ok_response ''{bad}''
        else not_found),
      get_gist = (\<lambda>gist_id.
        if gist_id = ''ab12cd34'' then ok_response ''gist2''
        else if gist_id = ''c0ffee'' then ok_response ''gist1''
        else not_found),
      get_repos = (\<lambda>user. if user = ''acme'' then ok_response ''repos'' else not_found),
      get_contents = (\<lambda>user repo path ref.
        if user = ''acme'' \<and> repo = ''demo'' \<and> ref = ''main'' then
          (if path = ''src'' \<or> path = [] then ok_response ''dir''
           else if path = ''nb.ipynb'' then ok_response ''nbfile''
           else if path = ''notes.txt'' then ok_response ''txtfile''
           else if path = ''broken.ipynb'' then ok_response ''brokenfile''
           else if path = ''latin1.ipynb'' then ok_response ''latin1file''
           else not_found)
        else not_found),
      render_notebook = (\<lambda>nbjson url.
        if nbjson = Str ''{nb}'' then Inr (''<p>nb</p>'', [(''title'', Str ''nb'')])
        else Inl NbFormatError),
      render_template = (\<lambda>name ns. ''<html>'' @ name @ ''</html>''),
      cache_expiry_setting = None,
      json_loads = (\<lambda>s.
        if s = ''gist2'' then Inr example_gist2
        else if s = ''gist1'' then Inr example_gist1
        else if s = ''repos'' then Inr (List [Dict [(''name'', Str ''demo'')]])
        else if s = ''dir'' then
          Inr (List [Dict [(''name'', Str ''a.py''), (''path'', Str ''src/a.py''), (''type'', Str ''file'')]])
        else if s = ''nbfile'' then
          Inr (Dict [(''name'', Str ''nb.ipynb''), (''url'', Str ''https://api.example/nb''), (''content'', Str ''e25ifQ=='')])
        else if s = ''txtfile'' then
          Inr (Dict [(''name'', Str ''notes.txt''), (''url'', Str ''https://api.example/notes''), (''content'', Str ''aGVsbG8='')])
        else if s = ''brokenfile'' then
          Inr (Dict [(''name'', Str ''broken.ipynb''), (''url'', Str ''https://api.example/broken''), (''content'', Str ''!!'')])
        else if s = ''latin1file'' then
          Inr (Dict [(''name'', Str ''latin1.ipynb''), (''url'', Str ''https://api.example/latin1''), (''content'', Str ''6Q=='')])
        else Inl (OtherError ''ValueError'')),
      decode_utf8 = (\<lambda>s. if s = [CHR 0xE9] then Inl (OtherError ''UnicodeDecodeError'') else Inr s),
      b64decode = (\<lambda>s.
        if s = ''e25ifQ=='' then Inr ''{nb}''
        else if s = ''aGVsbG8='' then Inr ''hello''
        else if s = ''6Q=='' then Inr [CHR 0xE9]
        else Inl (OtherError ''binascii.Error'')),
      py_repr = (\<lambda>v. ''<repr>''),
      url_unescape = (\<lambda>s. s)\<rparr>"

subsection \<open>What a request comes to\<close>

text \<open>
  However a handler gets there, a request ends in one of six ways: the handler raises,
  renders a notebook through \<open>finish_notebook\<close>, serves a page through \<open>cache_and_finish\<close>,
  redirects, writes a plain file, or writes a static page. \<open>exec\<close> does each of them. These
  definitions serve the proofs only: the lemmas on the shape of a handler show that every
  \<^verbatim>\<open>get\<close> above is \<open>exec\<close> of some plan after at most one provider call.
\<close>

text \<open>The calls that go to a provider client (not to the render pool).\<close>

fun provider_call :: "call \<Rightarrow> bool" where
  "provider_call (Render nbjson url) = False"
| "provider_call c = True"

datatype plan =
    Raise exn
  | Notebook pyval pyval
  | Page string
  | RedirectTo string
  | Plain string
  | Static string

fun exec :: "env \<Rightarrow> request \<Rightarrow> plan \<Rightarrow> unit action" where
  "exec env req (Raise e) = fail e"
| "exec env req (Notebook nbjson url) = finish_notebook env req nbjson url"
| "exec env req (Page html) = cache_and_finish env req html"
| "exec env req (RedirectTo url) = effect (redirect url)"
| "exec env req (Plain filedata) =
     andthen (effect (set_header ''Content-Type'' ''text/plain'')) (\<lambda>_. effect (write_chunk filedata))"
| "exec env req (Static html) = effect (write_chunk html)"

definition logged :: "call list \<Rightarrow> state \<Rightarrow> state" where
  "logged cs s = s\<lparr>calls := calls s @ cs\<rparr>"

text \<open>The handlers whose \<^verbatim>\<open>get\<close> carries \<^verbatim>\<open>@cached\<close>, when called with arguments it accepts.\<close>

fun decorated :: "handler \<Rightarrow> string list \<Rightarrow> bool" where
  "decorated URLHandler args = (length args = 2)"
| "decorated GistHandler args = (length args = 1 \<or> length args = 2)"
| "decorated GitHubUserHandler args = (length args = 1)"
| "decorated GitHubTreeHandler args = (length args = 4)"
| "decorated GitHubBlobHandler args = (length args = 4)"
| "decorated h args = False"

fun plan_ok :: "bool \<Rightarrow> plan \<Rightarrow> call list \<Rightarrow> bool" where
  "plan_ok d (Notebook nbjson url) cs = (d \<and> length cs = 1 \<and> list_all provider_call cs)"
| "plan_ok d (Page html) cs = (d \<and> length cs = 1 \<and> list_all provider_call cs)"
| "plan_ok d p cs = (length cs \<le> 1 \<and> list_all provider_call cs)"

definition run_plan :: "env \<Rightarrow> request \<Rightarrow> bool \<Rightarrow> plan \<Rightarrow> call list \<Rightarrow> unit action" where
  "run_plan env req d p cs =
     (if d then cached req (\<lambda>s. exec env req p (logged cs s))
      else (\<lambda>s. exec env req p (logged cs s)))"


definition cached_route :: "string \<Rightarrow> bool" where
  "cached_route u =
     (case find_handler handlers (path_of u) of None \<Rightarrow> False | Some (h, gs) \<Rightarrow> decorated h gs)"

text \<open>
  A continuation that fails on every input that starts with a character of the class: after
  it, a group of that class can only end where the class ends.
\<close>

definition rejects :: "cls \<Rightarrow> cont \<Rightarrow> bool" where
  "rejects c k = (\<forall>x xs. in_cls c x \<longrightarrow> k (x # xs) = None)"

section \<open>Properties\<close>

subsection \<open>Running actions\<close>

lemma andthen_call_out [simp]: "andthen (call_out c r) f s = f r (s\<lparr>calls := calls s @ [c]\<rparr>)"
  by (simp add: andthen_def call_out_def)

lemma andthen_pure_Inr [simp]: "andthen (pure (Inr x)) f = f x"
  by (simp add: andthen_def pure_def)

lemma andthen_pure_Inl [simp]: "andthen (pure (Inl e)) f = fail e"
  by (simp add: andthen_def pure_def fail_def)

lemma andthen_ok [simp]: "andthen (ok x) f = f x"
  by (simp add: andthen_def ok_def)

lemma andthen_fail [simp]: "andthen (fail e) f = fail e"
  by (simp add: andthen_def fail_def)

lemma andthen_effect [simp]: "andthen (effect g) f s = f () (g s)"
  by (simp add: andthen_def effect_def)

lemma fail_apply [simp]: "fail e s = (Inl e, s)"
  by (simp add: fail_def)

lemma ok_apply [simp]: "ok x s = (Inr x, s)"
  by (simp add: ok_def)

lemma pure_apply [simp]: "pure r s = (r, s)"
  by (simp add: pure_def)

lemma effect_apply [simp]: "effect g s = (Inr (), g s)"
  by (simp add: effect_def)

lemma try_except_pure_Inr [simp]: "try_except (pure (Inr x)) h = pure (Inr x)"
  by (simp add: try_except_def pure_def)

lemma try_except_pure_Inl [simp]: "try_except (pure (Inl e)) h = h e"
  by (simp add: try_except_def pure_def)

lemma rethrow_simps [simp]:
  "error r = None \<Longrightarrow> rethrow r = ok ()"
  "error r = Some e \<Longrightarrow> rethrow r = fail (FetchFailed e)"
  by (simp_all add: rethrow_def)

lemma cached_miss: "cache_get (cache s) (now req) (uri req) = None \<Longrightarrow> cached req w s = w s"
  by (simp add: cached_def)

lemma cached_hit:
  "cache_get (cache s) (now req) (uri req) = Some v \<Longrightarrow> cached req w s = (Inr (), write_chunk v s)"
  by (simp add: cached_def effect_def)

lemma finish_notebook_run:
  "finish_notebook env req nbjson url s =
     (case render_notebook env nbjson url of
        Inl e \<Rightarrow> (Inl (if e = NbFormatError then HTTPError 400 else e), s\<lparr>calls := calls s @ [Render nbjson url]\<rparr>)
      | Inr (nbhtml, config) \<Rightarrow>
          if keyword_clash config then (Inl TypeError, s\<lparr>calls := calls s @ [Render nbjson url]\<rparr>)
          else cache_and_finish env req (render_template env ''notebook.html'' ((''body'', Str nbhtml) # config))
                 (s\<lparr>calls := calls s @ [Render nbjson url]\<rparr>))"
  by (auto simp: finish_notebook_def andthen_def try_except_def call_out_def pure_def fail_def split: sum.splits prod.splits)

subsection \<open>Fetch errors\<close>

text \<open>
  C4, as the code has it. A raw-URL request that misses the cache and whose upstream fetch
  comes back with an error \<open>e\<close> (an HTTP 404, say) ends with that error raised again as it
  is: \<^verbatim>\<open>URLHandler.get\<close> does not turn it into a \<^verbatim>\<open>web.HTTPError\<close>, writes nothing and caches
  nothing, and the client is answered 500.
\<close>

theorem url_fetch_error_reraised:
  assumes "find_handler handlers (path_of (uri req)) = Some (URLHandler, [secure, url])"
    and "remote_url = ''http'' @ url_unescape env secure @ ''://'' @ url_unescape env url"
    and "cache_get (cache s) (now req) (uri req) = None"
    and "error (client_fetch env remote_url) = Some e"
  shows "serve env req s = (Inl (FetchFailed e), s\<lparr>calls := calls s @ [Fetch remote_url]\<rparr>)
       \<and> client_status (serve env req s) = 500"
  using assms
  by (simp add: serve_def URLHandler_get_def URLHandler_get_body_def cached_miss Let_def)

text \<open>The theorem at \<^verbatim>\<open>/url/example.org/missing.ipynb\<close>, which the example host answers 404.\<close>

theorem url_fetch_error_reraised_witness:
  "find_handler handlers (path_of ''/url/example.org/missing.ipynb'')
     = Some (URLHandler, [[], ''example.org/missing.ipynb''])
   \<and> cache_get Map.empty 0 ''/url/example.org/missing.ipynb'' = None
   \<and> error (client_fetch example_env ''http://example.org/missing.ipynb'') = Some (HTTPClientError 404)
   \<and> serve example_env \<lparr>uri = ''/url/example.org/missing.ipynb'', now = 0\<rparr> (fresh Map.empty)
       = (Inl (FetchFailed (HTTPClientError 404)),
          (fresh Map.empty)\<lparr>calls := [Fetch ''http://example.org/missing.ipynb'']\<rparr>)"
proof -
  have r: "find_handler handlers (path_of ''/url/example.org/missing.ipynb'')
     = Some (URLHandler, [[], ''example.org/missing.ipynb''])"
    by code_simp
  have m: "cache_get Map.empty 0 ''/url/example.org/missing.ipynb'' = None"
    by (simp add: cache_get_def)
  have e: "error (client_fetch example_env ''http://example.org/missing.ipynb'') = Some (HTTPClientError 404)"
    by (simp add: example_env_def not_found_def)
  have u: "''http://example.org/missing.ipynb''
     = ''http'' @ url_unescape example_env [] @ ''://'' @ url_unescape example_env ''example.org/missing.ipynb''"
    by (simp add: example_env_def)
  from url_fetch_error_reraised
         [of "\<lparr>uri = ''/url/example.org/missing.ipynb'', now = 0\<rparr>" "[]" "''example.org/missing.ipynb''"
             "''http://example.org/missing.ipynb''" example_env "fresh Map.empty" "HTTPClientError 404"]
       r m e u
  show ?thesis by (simp add: fresh_def)
qed

text \<open>
  C4 as stated fails there: the upstream status is 404, what the handler raises is the
  client's own error and not \<^verbatim>\<open>web.HTTPError(404)\<close>, and the client is answered 500.
\<close>

theorem upstream_404_answered_500:
  "error (client_fetch example_env ''http://example.org/missing.ipynb'') = Some (HTTPClientError 404)
   \<and> fst (serve example_env \<lparr>uri = ''/url/example.org/missing.ipynb'', now = 0\<rparr> (fresh Map.empty))
       = Inl (FetchFailed (HTTPClientError 404))
   \<and> client_status
        (serve example_env \<lparr>uri = ''/url/example.org/missing.ipynb'', now = 0\<rparr> (fresh Map.empty)) = 500"
proof -
  have r: "find_handler handlers (path_of ''/url/example.org/missing.ipynb'')
     = Some (URLHandler, [[], ''example.org/missing.ipynb''])"
    by code_simp
  have e: "error (client_fetch example_env ''http://example.org/missing.ipynb'') = Some (HTTPClientError 404)"
    by (simp add: example_env_def not_found_def)
  have u: "url_unescape example_env = (\<lambda>s. s)"
    by (simp add: example_env_def)
  show ?thesis using r e
    by (simp add: serve_def u URLHandler_get_def URLHandler_get_body_def cached_def cache_get_def
          fresh_def Let_def)
qed

subsection \<open>The shape of a handler\<close>

lemma cache_get_None_mono:
  "cache_get c t k = None \<Longrightarrow> t \<le> t' \<Longrightarrow> cache_get c t' k = None"
  by (auto simp: cache_get_def split: option.splits if_splits)

lemma andthen_rethrow_apply:
  "andthen (rethrow r) f s = (case error r of Some e \<Rightarrow> (Inl (FetchFailed e), s) | None \<Rightarrow> f () s)"
  by (simp add: rethrow_def split: option.splits)

lemma andthen_pure_apply:
  "andthen (pure x) f s = (case x of Inl e \<Rightarrow> (Inl e, s) | Inr v \<Rightarrow> f v s)"
  by (simp split: sum.splits)

lemma andthen_try_pure_apply:
  "andthen (try_except (pure x) h) f s = (case x of Inl e \<Rightarrow> andthen (h e) f s | Inr v \<Rightarrow> f v s)"
  by (simp split: sum.splits)

lemma andthen_bad_request_apply:
  "andthen (bad_request contents e) f s =
     (case subscript contents ''url'' of Inl e' \<Rightarrow> (Inl e', s) | Inr u \<Rightarrow> (Inl (HTTPError 400), s))"
  by (simp add: bad_request_def andthen_def pure_def fail_def split: sum.splits)

lemmas run_simps = andthen_rethrow_apply andthen_pure_apply andthen_try_pure_apply
  andthen_bad_request_apply

lemma url_body_shape:
  "\<exists>p c0. provider_call c0 \<and>
     (\<forall>req s. URLHandler_get_body env req secure url s = exec env req p (logged [c0] s))"
proof -
  let ?u = "''http'' @ secure @ ''://'' @ url"
  let ?r = "client_fetch env ?u"
  let ?p = "case error ?r of Some e \<Rightarrow> Raise (FetchFailed e)
            | None \<Rightarrow> (case decode_utf8 env (body ?r) of Inl e \<Rightarrow> Raise e
                        | Inr nbjson \<Rightarrow> Notebook (Str nbjson) (Str ?u))"
  have "\<forall>req s. URLHandler_get_body env req secure url s = exec env req ?p (logged [Fetch ?u] s)"
    by (simp add: URLHandler_get_body_def Let_def run_simps logged_def split: option.splits sum.splits)
  then show ?thesis
    by (intro exI[of _ ?p] exI[of _ "Fetch ?u"]) simp
qed

lemma gist_body_shape:
  "\<exists>p c0. provider_call c0 \<and>
     (\<forall>req s. GistHandler_get_body env req gist_id filename s = exec env req p (logged [c0] s))"
proof -
  let ?r = "get_gist env gist_id"
  let ?p = "case error ?r of Some e \<Rightarrow> Raise (FetchFailed e)
     | None \<Rightarrow> (case bind_e (decode_utf8 env (body ?r)) (json_loads env) of Inl e \<Rightarrow> Raise e
     | Inr data \<Rightarrow> (case subscript data ''id'' of Inl e \<Rightarrow> Raise e
     | Inr gid \<Rightarrow> (case subscript data ''files'' of Inl e \<Rightarrow> Raise e
     | Inr files \<Rightarrow> (case bind_e (py_len files) (\<lambda>n.
                if n = 1 then bind_e (keys files) (\<lambda>ks. Inr (hd ks)) else Inr filename) of Inl e \<Rightarrow> Raise e
     | Inr fname \<Rightarrow> (if fname \<noteq> [] then
          (case subscript files fname of Inl e \<Rightarrow> Raise e
           | Inr file \<Rightarrow> (case subscript file ''content'' of Inl e \<Rightarrow> Raise e
           | Inr nbjson \<Rightarrow> (case subscript file ''raw_url'' of Inl e \<Rightarrow> Raise e
           | Inr raw_url \<Rightarrow> Notebook nbjson raw_url)))
        else (case items files of Inl e \<Rightarrow> Raise e
           | Inr its \<Rightarrow> Page (render_template env ''gistlist.html''
               [(''entries'', List (map (gist_entry env gid) its))])))))))"
  have "\<forall>req s. GistHandler_get_body env req gist_id filename s = exec env req ?p (logged [GetGist gist_id] s)"
    by (simp add: GistHandler_get_body_def Let_def run_simps logged_def split: option.splits sum.splits)
  then show ?thesis
    by (intro exI[of _ ?p] exI[of _ "GetGist gist_id"]) simp
qed

lemma user_body_shape:
  "\<exists>p c0. provider_call c0 \<and>
     (\<forall>req s. GitHubUserHandler_get_body env req user s = exec env req p (logged [c0] s))"
proof -
  let ?r = "get_repos env user"
  let ?p = "case error ?r of Some e \<Rightarrow> Raise (FetchFailed e)
     | None \<Rightarrow> (case bind_e (decode_utf8 env (body ?r)) (json_loads env) of Inl e \<Rightarrow> Raise e
     | Inr repos \<Rightarrow> (case bind_e (py_iter repos) (map_e user_entry) of Inl e \<Rightarrow> Raise e
     | Inr entries \<Rightarrow> Page (render_template env ''userview.html'' [(''entries'', List entries)])))"
  have "\<forall>req s. GitHubUserHandler_get_body env req user s = exec env req ?p (logged [GetRepos user] s)"
    by (simp add: GitHubUserHandler_get_body_def Let_def run_simps logged_def split: option.splits sum.splits)
  then show ?thesis
    by (intro exI[of _ ?p] exI[of _ "GetRepos user"]) simp
qed

lemma blob_body_shape:
  "\<exists>p c0. provider_call c0 \<and>
     (\<forall>req s. GitHubBlobHandler_get_body env req user repo ref path s = exec env req p (logged [c0] s))"
proof -
  let ?r = "get_contents env user repo path ref"
  let ?p = "case error ?r of Some e \<Rightarrow> Raise (FetchFailed e)
     | None \<Rightarrow> (case bind_e (decode_utf8 env (body ?r)) (json_loads env) of Inl e \<Rightarrow> Raise e
     | Inr contents \<Rightarrow>
        if is_list contents then
          RedirectTo (''/github/'' @ user @ ''/'' @ repo @ ''/tree/'' @ ref @ ''/'' @ path @ ''/'')
        else (case decode_content env contents of
           Inl e \<Rightarrow> (case subscript contents ''url'' of Inl e' \<Rightarrow> Raise e' | Inr u \<Rightarrow> Raise (HTTPError 400))
         | Inr filedata \<Rightarrow> (case bind_e (subscript contents ''name'') as_str of Inl e \<Rightarrow> Raise e
         | Inr name \<Rightarrow>
            if endswith name ''.ipynb'' then
              (case decode_utf8 env filedata of
                 Inl e \<Rightarrow> (case subscript contents ''url'' of Inl e' \<Rightarrow> Raise e' | Inr u \<Rightarrow> Raise (HTTPError 400))
               | Inr nbjson \<Rightarrow> (case subscript contents ''url'' of Inl e \<Rightarrow> Raise e
                   | Inr u \<Rightarrow> Notebook (Str nbjson)
                       (Str (''https://raw.github.com/'' @ user @ ''/'' @ repo @ ''/'' @ ref @ ''/'' @ path))))
            else Plain filedata)))"
  have "\<forall>req s. GitHubBlobHandler_get_body env req user repo ref path s
          = exec env req ?p (logged [GetContents user repo path ref] s)"
    by (auto simp: GitHubBlobHandler_get_body_def Let_def run_simps logged_def
          split: option.splits sum.splits)
  then show ?thesis
    by (intro exI[of _ ?p] exI[of _ "GetContents user repo path ref"]) simp
qed

lemma tree_body_shape:
  "\<exists>p cs. plan_ok True p cs \<and>
     (\<forall>req s. uri req = u \<longrightarrow>
        GitHubTreeHandler_get_body env req user repo ref path s = exec env req p (logged cs s))"
proof (cases "endswith u ''/''")
  case False
  then have "\<forall>req s. uri req = u \<longrightarrow>
        GitHubTreeHandler_get_body env req user repo ref path s
          = exec env req (RedirectTo (u @ ''/'')) (logged [] s)"
    by (simp add: GitHubTreeHandler_get_body_def logged_def)
  then show ?thesis
    by (intro exI[of _ "RedirectTo (u @ ''/'')"] exI[of _ "[]"]) simp
next
  case True
  let ?path = "rstrip_slash path"
  let ?r = "get_contents env user repo ?path ref"
  let ?base = "''/github/'' @ user @ ''/'' @ repo @ ''/tree/'' @ ref"
  let ?p = "case error ?r of Some e \<Rightarrow> Raise (FetchFailed e)
     | None \<Rightarrow> (case bind_e (decode_utf8 env (body ?r)) (json_loads env) of Inl e \<Rightarrow> Raise e
     | Inr contents \<Rightarrow>
        if \<not> is_list contents then
          RedirectTo (''/github/'' @ user @ ''/'' @ repo @ ''/blob/'' @ ref @ ''/'' @ ?path)
        else (case bind_e (py_iter contents) (map_e (tree_entry env user repo ref)) of Inl e \<Rightarrow> Raise e
         | Inr entries \<Rightarrow> Page (render_template env ''treelist.html''
             [(''entries'', List entries),
              (''path_list'', List (Dict [(''url'', Str ?base), (''name'', Str repo)]
                 # (if ?path \<noteq> [] then crumbs ?base (split_slash ?path) else [])))])))"
  from True have "\<forall>req s. uri req = u \<longrightarrow>
        GitHubTreeHandler_get_body env req user repo ref path s
          = exec env req ?p (logged [GetContents user repo ?path ref] s)"
    by (simp add: GitHubTreeHandler_get_body_def Let_def run_simps logged_def
          split: option.splits sum.splits)
  moreover have "plan_ok True ?p [GetContents user repo ?path ref]"
    by (simp split: option.splits sum.splits)
  ultimately show ?thesis
    by (intro exI[of _ ?p] exI[of _ "[GetContents user repo ?path ref]"]) simp
qed

lemma plan_ok_single: "provider_call c0 \<Longrightarrow> plan_ok True p [c0]"
  by (cases p) simp_all

lemma plan_ok_none: "plan_ok d (Raise e) []" "plan_ok d (RedirectTo url) []" "plan_ok d (Static html) []"
  by simp_all

lemma length2E: "length xs = 2 \<Longrightarrow> \<exists>a b. xs = [a, b]"
  by (cases xs; cases "tl xs") auto

lemma length1E: "length xs = 1 \<Longrightarrow> \<exists>a. xs = [a]"
  by (cases xs) auto

lemma length4E: "length xs = 4 \<Longrightarrow> \<exists>a b c d. xs = [a, b, c, d]"
  by (auto simp: numeral_eq_Suc length_Suc_conv)

lemma dispatch_url_shape:
  "\<exists>p cs. plan_ok (decorated URLHandler args) p cs \<and>
     (\<forall>req s. uri req = u \<longrightarrow>
        dispatch env req URLHandler args s = run_plan env req (decorated URLHandler args) p cs s)"
proof (cases "length args = 2")
  case True
  then obtain a b where args: "args = [a, b]" using length2E by blast
  from url_body_shape[of env a b] obtain p c0 where
    p: "provider_call c0" "\<And>req s. URLHandler_get_body env req a b s = exec env req p (logged [c0] s)"
    by blast
  have "URLHandler_get_body env req a b = (\<lambda>s. exec env req p (logged [c0] s))" for req
    using p(2) by blast
  then show ?thesis using p(1) args
    by (intro exI[of _ p] exI[of _ "[c0]"]) (simp add: run_plan_def URLHandler_get_def plan_ok_single)
next
  case False
  then have "dispatch env req URLHandler args = fail TypeError" for req
    by (auto split: list.splits)
  then show ?thesis using False
    by (intro exI[of _ "Raise TypeError"] exI[of _ "[]"]) (simp add: run_plan_def logged_def)
qed

lemma dispatch_gist_shape:
  "\<exists>p cs. plan_ok (decorated GistHandler args) p cs \<and>
     (\<forall>req s. uri req = u \<longrightarrow>
        dispatch env req GistHandler args s = run_plan env req (decorated GistHandler args) p cs s)"
proof (cases "length args = 1 \<or> length args = 2")
  case True
  then obtain a b where args: "dispatch env req GistHandler args = GistHandler_get env req a b" for req
    using length2E[of args] length1E[of args] by fastforce
  from gist_body_shape[of env a b] obtain p c0 where
    p: "provider_call c0" "\<And>req s. GistHandler_get_body env req a b s = exec env req p (logged [c0] s)"
    by blast
  have "GistHandler_get_body env req a b = (\<lambda>s. exec env req p (logged [c0] s))" for req
    using p(2) by blast
  then show ?thesis using p(1) args True
    by (intro exI[of _ p] exI[of _ "[c0]"]) (simp add: run_plan_def GistHandler_get_def plan_ok_single)
next
  case False
  then have "dispatch env req GistHandler args = fail TypeError" for req
    by (auto split: list.splits)
  then show ?thesis using False
    by (intro exI[of _ "Raise TypeError"] exI[of _ "[]"]) (simp add: run_plan_def logged_def)
qed

lemma dispatch_user_shape:
  "\<exists>p cs. plan_ok (decorated GitHubUserHandler args) p cs \<and>
     (\<forall>req s. uri req = u \<longrightarrow>
        dispatch env req GitHubUserHandler args s
          = run_plan env req (decorated GitHubUserHandler args) p cs s)"
proof (cases "length args = 1")
  case True
  then obtain a where args: "args = [a]" using length1E by blast
  from user_body_shape[of env a] obtain p c0 where
    p: "provider_call c0" "\<And>req s. GitHubUserHandler_get_body env req a s = exec env req p (logged [c0] s)"
    by blast
  have "GitHubUserHandler_get_body env req a = (\<lambda>s. exec env req p (logged [c0] s))" for req
    using p(2) by blast
  then show ?thesis using p(1) args
    by (intro exI[of _ p] exI[of _ "[c0]"]) (simp add: run_plan_def GitHubUserHandler_get_def plan_ok_single)
next
  case False
  then have "dispatch env req GitHubUserHandler args = fail TypeError" for req
    by (auto split: list.splits)
  then show ?thesis using False
    by (intro exI[of _ "Raise TypeError"] exI[of _ "[]"]) (simp add: run_plan_def logged_def)
qed

lemma dispatch_blob_shape:
  "\<exists>p cs. plan_ok (decorated GitHubBlobHandler args) p cs \<and>
     (\<forall>req s. uri req = u \<longrightarrow>
        dispatch env req GitHubBlobHandler args s
          = run_plan env req (decorated GitHubBlobHandler args) p cs s)"
proof (cases "length args = 4")
  case True
  then obtain a b c d where args: "args = [a, b, c, d]" using length4E by blast
  from blob_body_shape[of env a b c d] obtain p c0 where
    p: "provider_call c0"
       "\<And>req s. GitHubBlobHandler_get_body env req a b c d s = exec env req p (logged [c0] s)"
    by blast
  have "GitHubBlobHandler_get_body env req a b c d = (\<lambda>s. exec env req p (logged [c0] s))" for req
    using p(2) by blast
  then show ?thesis using p(1) args
    by (intro exI[of _ p] exI[of _ "[c0]"]) (simp add: run_plan_def GitHubBlobHandler_get_def plan_ok_single)
next
  case False
  then have "dispatch env req GitHubBlobHandler args = fail TypeError" for req
    by (auto split: list.splits)
  then show ?thesis using False
    by (intro exI[of _ "Raise TypeError"] exI[of _ "[]"]) (simp add: run_plan_def logged_def)
qed

lemma dispatch_tree_shape:
  "\<exists>p cs. plan_ok (decorated GitHubTreeHandler args) p cs \<and>
     (\<forall>req s. uri req = u \<longrightarrow>
        dispatch env req GitHubTreeHandler args s
          = run_plan env req (decorated GitHubTreeHandler args) p cs s)"
proof (cases "length args = 4")
  case True
  then obtain a b c d where args: "args = [a, b, c, d]" using length4E by blast
  from tree_body_shape[of u env a b c d] obtain p cs where
    p: "plan_ok True p cs"
       "\<And>req s. uri req = u \<Longrightarrow>
          GitHubTreeHandler_get_body env req a b c d s = exec env req p (logged cs s)"
    by blast
  have "uri req = u \<Longrightarrow> GitHubTreeHandler_get_body env req a b c d = (\<lambda>s. exec env req p (logged cs s))" for req
    using p(2) by blast
  then show ?thesis using p(1) args
    by (intro exI[of _ p] exI[of _ cs]) (simp add: run_plan_def GitHubTreeHandler_get_def)
next
  case False
  then have "dispatch env req GitHubTreeHandler args = fail TypeError" for req
    by (auto split: list.splits)
  then show ?thesis using False
    by (intro exI[of _ "Raise TypeError"] exI[of _ "[]"]) (simp add: run_plan_def logged_def)
qed

lemma dispatch_plain_shape:
  assumes "\<not> decorated h args"
    and "\<And>req s. uri req = u \<Longrightarrow> dispatch env req h args s = exec env req p s"
    and "plan_ok False p []"
  shows "\<exists>p cs. plan_ok (decorated h args) p cs \<and>
     (\<forall>req s. uri req = u \<longrightarrow> dispatch env req h args s = run_plan env req (decorated h args) p cs s)"
  using assms by (intro exI[of _ p] exI[of _ "[]"]) (simp add: run_plan_def logged_def)

lemma dispatch_shape:
  "\<exists>p cs. plan_ok (decorated h args) p cs \<and>
     (\<forall>req s. uri req = u \<longrightarrow> dispatch env req h args s = run_plan env req (decorated h args) p cs s)"
proof (cases h)
  case IndexHandler
  show ?thesis unfolding IndexHandler
    by (rule dispatch_plain_shape
          [of _ _ _ _ "if args = [] then Static (render_template env ''index.html'' []) else Raise TypeError"])
       (simp_all add: IndexHandler_get_def)
next
  case FAQHandler
  show ?thesis unfolding FAQHandler
    by (rule dispatch_plain_shape
          [of _ _ _ _ "if args = [] then Static (render_template env ''faq.md'' []) else Raise TypeError"])
       (simp_all add: FAQHandler_get_def)
next
  case GitHubRedirectHandler
  show ?thesis unfolding GitHubRedirectHandler
    by (rule dispatch_plain_shape
          [of _ _ _ _ "case args of
              [user, repo, ref, path] \<Rightarrow>
                RedirectTo (''/github/'' @ user @ ''/'' @ repo @ ''/'' @ ref @ ''/'' @ path)
            | _ \<Rightarrow> Raise TypeError"])
       (simp_all add: GitHubRedirectHandler_get_def split: list.splits)
next
  case RawGitHubURLHandler
  show ?thesis unfolding RawGitHubURLHandler
    by (rule dispatch_plain_shape
          [of _ _ _ _ "case args of
              [user, repo, path] \<Rightarrow> RedirectTo (''/github/'' @ user @ ''/'' @ repo @ ''/blob/'' @ path)
            | _ \<Rightarrow> Raise TypeError"])
       (simp_all add: RawGitHubURLHandler_get_def split: list.splits)
next
  case URLHandler
  then show ?thesis using dispatch_url_shape by simp
next
  case AddSlashHandler
  show ?thesis unfolding AddSlashHandler
    by (rule dispatch_plain_shape[of _ _ _ _ "RedirectTo (u @ ''/'')"])
       (simp_all add: AddSlashHandler_get_def)
next
  case GitHubUserHandler
  then show ?thesis using dispatch_user_shape by simp
next
  case GitHubRepoHandler
  show ?thesis unfolding GitHubRepoHandler
    by (rule dispatch_plain_shape
          [of _ _ _ _ "case args of
              [user, repo] \<Rightarrow> RedirectTo (''/github/'' @ user @ ''/'' @ repo @ ''/tree/master/'')
            | _ \<Rightarrow> Raise TypeError"])
       (simp_all add: GitHubRepoHandler_get_def split: list.splits)
next
  case RemoveSlashHandler
  show ?thesis unfolding RemoveSlashHandler
    by (rule dispatch_plain_shape[of _ _ _ _ "RedirectTo (rstrip_slash u)"])
       (simp_all add: RemoveSlashHandler_get_def)
next
  case GitHubBlobHandler
  then show ?thesis using dispatch_blob_shape by simp
next
  case GitHubTreeHandler
  then show ?thesis using dispatch_tree_shape by simp
next
  case GistHandler
  then show ?thesis using dispatch_gist_shape by simp
next
  case GistRedirectHandler
  show ?thesis unfolding GistRedirectHandler
    by (rule dispatch_plain_shape
          [of _ _ _ _ "case args of
              [gist_id] \<Rightarrow> RedirectTo (''/gist/'' @ gist_id)
            | [gist_id, file] \<Rightarrow>
                RedirectTo (if file \<noteq> [] then ''/gist/'' @ gist_id @ ''/'' @ file else ''/gist/'' @ gist_id)
            | _ \<Rightarrow> Raise TypeError"])
       (simp_all add: GistRedirectHandler_get_def Let_def split: list.splits)
qed

lemma decorated_map [simp]: "decorated h (map f gs) = decorated h gs"
  by (cases h) simp_all

lemma serve_shape:
  "\<exists>p cs. plan_ok (cached_route u) p cs \<and>
     (\<forall>req s. uri req = u \<longrightarrow> serve env req s = run_plan env req (cached_route u) p cs s)"
proof (cases "find_handler handlers (path_of u)")
  case None
  then show ?thesis
    by (intro exI[of _ "Raise (HTTPError 404)"] exI[of _ "[]"])
       (simp add: serve_def cached_route_def run_plan_def logged_def)
next
  case (Some hg)
  obtain h gs where hg: "hg = (h, gs)" by (cases hg)
  from dispatch_shape[of h "map (url_unescape env) gs" u env] Some hg show ?thesis
    by (simp add: serve_def cached_route_def)
qed

lemma no_render_logged: "list_all provider_call cs \<Longrightarrow> Render nbjson u \<notin> set cs"
  by (auto simp: list_all_iff)

lemma exec_rendered:
  assumes "plan_ok d p cs" and "exec env req p (logged cs (fresh c)) = (r, s')"
    and "Render nbjson u \<in> set (calls s')"
  shows "p = Notebook nbjson u \<and> d \<and> (\<exists>c0. cs = [c0] \<and> provider_call c0)"
proof (cases p)
  case (Notebook nb url)
  with assms show ?thesis
    using no_render_logged[of cs nbjson u]
    by (cases cs)
       (auto simp: finish_notebook_run logged_def fresh_def cache_and_finish_def write_chunk_def
          split: sum.splits prod.splits if_splits)
qed (use assms no_render_logged[of cs nbjson u] in
      \<open>auto simp: logged_def fresh_def cache_and_finish_def write_chunk_def
         set_header_def redirect_def\<close>)

lemma run_plan_rendered:
  assumes "plan_ok d p cs" and "run_plan env req d p cs (fresh c) = (r, s')"
    and "Render nbjson u \<in> set (calls s')"
  shows "p = Notebook nbjson u \<and> d \<and> (\<exists>c0. cs = [c0] \<and> provider_call c0)
       \<and> cache_get c (now req) (uri req) = None
       \<and> exec env req p (logged cs (fresh c)) = (r, s')"
proof (cases "d \<and> cache_get c (now req) (uri req) \<noteq> None")
  case True
  with assms(2,3) show ?thesis
    by (auto simp: run_plan_def cached_def fresh_def write_chunk_def)
next
  case False
  with assms(2) have e: "exec env req p (logged cs (fresh c)) = (r, s')"
    by (cases d) (auto simp: run_plan_def cached_def fresh_def)
  from exec_rendered[OF assms(1) e assms(3)] False e show ?thesis by simp
qed

subsection \<open>Conversion errors\<close>

text \<open>
  C2. Take any request served on a fresh response with cache \<open>c\<close>, whose handler submitted
  a document to the render pool (\<open>Render nbjson u\<close> is in its log of calls) and got
  \<^verbatim>\<open>NbFormatError\<close> back. Then the handler raised \<^verbatim>\<open>web.HTTPError(400)\<close>, the client is
  answered 400, nothing was written and the cache is as it was. A later request with the
  same URI does all of it again: the same provider call, then the render, then 400.
\<close>

theorem conversion_error_not_cached:
  assumes "serve env req (fresh c) = (r, s')"
    and "Render nbjson u \<in> set (calls s')"
    and "render_notebook env nbjson u = Inl NbFormatError"
  shows "r = Inl (HTTPError 400) \<and> client_status (r, s') = 400
       \<and> cache s' = c \<and> written s' = []
       \<and> length (calls s') = 2 \<and> provider_call (hd (calls s')) \<and> last (calls s') = Render nbjson u
       \<and> (\<forall>t\<ge>now req. serve env (req\<lparr>now := t\<rparr>) (fresh (cache s')) = (r, s'))"
proof -
  from serve_shape[of "uri req" env] obtain p cs where
    ok: "plan_ok (cached_route (uri req)) p cs" and
    sh: "\<And>req' s. uri req' = uri req \<Longrightarrow>
           serve env req' s = run_plan env req' (cached_route (uri req)) p cs s"
    by blast
  from assms(1) sh[of req] have "run_plan env req (cached_route (uri req)) p cs (fresh c) = (r, s')"
    by simp
  from run_plan_rendered[OF ok this assms(2)] obtain c0 where
    p: "p = Notebook nbjson u" and cs: "cs = [c0]" "provider_call c0" and
    miss: "cache_get c (now req) (uri req) = None" and
    e: "exec env req p (logged cs (fresh c)) = (r, s')"
    by blast
  from e p cs assms(3) have res:
    "r = Inl (HTTPError 400)" "s' = logged [c0, Render nbjson u] (fresh c)"
    by (auto simp: finish_notebook_run logged_def)
  have again: "serve env (req\<lparr>now := t\<rparr>) (fresh (cache s')) = (r, s')" if "now req \<le> t" for t
  proof -
    have "cache_get c t (uri req) = None"
      using miss that by (rule cache_get_None_mono)
    then show ?thesis using sh[of "req\<lparr>now := t\<rparr>"] p cs assms(3) res
      by (simp add: run_plan_def cached_def finish_notebook_run logged_def fresh_def)
  qed
  from res cs(2) again show ?thesis
    by (simp add: logged_def fresh_def)
qed

lemmas eval_simps = serve_def cached_def cache_get_def cache_set_def fresh_def Let_def
  finish_notebook_run cache_and_finish_def write_chunk_def set_header_def redirect_def utf8_def
  example_env_def ok_response_def not_found_def run_simps cache_expiry_def keyword_clash_def

lemma fresh_sel [simp]:
  "cache (fresh c) = c" "status (fresh c) = 200" "headers (fresh c) = []"
  "written (fresh c) = []" "calls (fresh c) = []"
  by (simp_all add: fresh_def)

text \<open>The theorem at \<^verbatim>\<open>/url/example.org/bad.ipynb\<close>, a document the example pool refuses.\<close>

theorem conversion_error_not_cached_witness:
  "serve example_env \<lparr>uri = ''/url/example.org/bad.ipynb'', now = 0\<rparr> (fresh Map.empty)
     = (Inl (HTTPError 400),
        (fresh Map.empty)\<lparr>calls := [Fetch ''http://example.org/bad.ipynb'',
           Render (Str ''{bad}'') (Str ''http://example.org/bad.ipynb'')]\<rparr>)
   \<and> render_notebook example_env (Str ''{bad}'') (Str ''http://example.org/bad.ipynb'') = Inl NbFormatError
   \<and> serve example_env \<lparr>uri = ''/url/example.org/bad.ipynb'', now = 5\<rparr> (fresh Map.empty)
     = (Inl (HTTPError 400),
        (fresh Map.empty)\<lparr>calls := [Fetch ''http://example.org/bad.ipynb'',
           Render (Str ''{bad}'') (Str ''http://example.org/bad.ipynb'')]\<rparr>)"
proof -
  let ?req = "\<lparr>uri = ''/url/example.org/bad.ipynb'', now = 0\<rparr>"
  let ?s' = "(fresh Map.empty)\<lparr>calls := [Fetch ''http://example.org/bad.ipynb'',
           Render (Str ''{bad}'') (Str ''http://example.org/bad.ipynb'')]\<rparr>"
  have route: "find_handler handlers (path_of ''/url/example.org/bad.ipynb'')
     = Some (URLHandler, [[], ''example.org/bad.ipynb''])"
    by code_simp
  have run: "serve example_env ?req (fresh Map.empty) = (Inl (HTTPError 400), ?s')"
    by (simp add: route URLHandler_get_def URLHandler_get_body_def eval_simps)
  have mem: "Render (Str ''{bad}'') (Str ''http://example.org/bad.ipynb'') \<in> set (calls ?s')"
    by simp
  have bad: "render_notebook example_env (Str ''{bad}'') (Str ''http://example.org/bad.ipynb'')
     = Inl NbFormatError"
    by (simp add: example_env_def)
  from conversion_error_not_cached[OF run mem bad]
  have "\<forall>t\<ge>now ?req. serve example_env (?req\<lparr>now := t\<rparr>) (fresh (cache ?s'))
          = (Inl (HTTPError 400), ?s')"
    by blast
  then have "serve example_env (?req\<lparr>now := 5\<rparr>) (fresh (cache ?s')) = (Inl (HTTPError 400), ?s')"
    by simp
  with run bad show ?thesis by (simp add: fresh_def)
qed

subsection \<open>The cache\<close>

text \<open>
  C1, as the code has it. Take a request that misses the cache and is answered with a
  rendered notebook (its handler went through the render pool and returned). Then what was
  written is the template \<^verbatim>\<open>notebook.html\<close> over the pool's output, and the cache holds
  those bytes under the request URI, with the expiry \<^verbatim>\<open>int(time.time() + cache_expiry)\<close>: the
  end of the TTL cut down to whole seconds, so less than a second before it. A request for
  the same URI that is served before that stored expiry is answered with the same bytes,
  whatever the providers would now return, and makes no call at all, neither to a provider
  nor to the pool. One served at or after the stored expiry is a miss again: it makes the
  same calls as the first, writes the same content and stores it under a new expiry.
\<close>

theorem cache_roundtrip:
  assumes "serve env req (fresh c) = (Inr (), s1)"
    and "cache_get c (now req) (uri req) = None"
    and "Render nbjson u \<in> set (calls s1)"
    and "expire_at = py_int (now req + cache_expiry env)"
  shows "(\<exists>nbhtml config. render_notebook env nbjson u = Inr (nbhtml, config)
            \<and> written s1
                = render_template env ''notebook.html'' ((''body'', Str nbhtml) # config))
       \<and> cache s1 = cache_set c (uri req) (written s1) expire_at
       \<and> (0 \<le> now req + cache_expiry env \<longrightarrow>
            of_int expire_at \<le> now req + cache_expiry env
          \<and> now req + cache_expiry env < of_int expire_at + 1)
       \<and> (\<forall>env2 t. t < of_int expire_at \<longrightarrow>
            serve env2 (req\<lparr>now := t\<rparr>) (fresh (cache s1))
              = (Inr (), (fresh (cache s1))\<lparr>written := written s1\<rparr>))
       \<and> (\<forall>t. of_int expire_at \<le> t \<longrightarrow>
            serve env (req\<lparr>now := t\<rparr>) (fresh (cache s1))
              = (Inr (), s1\<lparr>cache := cache_set c (uri req) (written s1)
                                    (py_int (t + cache_expiry env))\<rparr>))"
proof -
  from serve_shape[of "uri req" env] obtain p cs where
    ok: "plan_ok (cached_route (uri req)) p cs" and
    sh: "\<And>req' s. uri req' = uri req \<Longrightarrow>
           serve env req' s = run_plan env req' (cached_route (uri req)) p cs s"
    by blast
  from assms(1) sh[of req] have "run_plan env req (cached_route (uri req)) p cs (fresh c) = (Inr (), s1)"
    by simp
  from run_plan_rendered[OF ok this assms(3)] obtain c0 where
    p: "p = Notebook nbjson u" and d: "cached_route (uri req)" and cs: "cs = [c0]" and
    e: "exec env req p (logged cs (fresh c)) = (Inr (), s1)"
    by blast
  from e p cs obtain nbhtml config where
    rn: "render_notebook env nbjson u = Inr (nbhtml, config)" "\<not> keyword_clash config"
    by (auto simp: finish_notebook_run split: sum.splits prod.splits if_splits)
  define html where "html = render_template env ''notebook.html'' ((''body'', Str nbhtml) # config)"
  from e p cs rn have s1: "s1 = \<lparr>cache = cache_set c (uri req) html expire_at, status = 200,
      headers = [], written = html, calls = [c0, Render nbjson u]\<rparr>"
    by (simp add: finish_notebook_run html_def assms(4) cache_and_finish_def write_chunk_def
          utf8_def logged_def fresh_def)
  have hit: "serve env2 (req\<lparr>now := t\<rparr>) (fresh (cache s1))
      = (Inr (), (fresh (cache s1))\<lparr>written := written s1\<rparr>)" if "t < of_int expire_at" for env2 t
  proof -
    from serve_shape[of "uri req" env2] obtain p2 cs2 where
      "serve env2 (req\<lparr>now := t\<rparr>) (fresh (cache s1))
         = run_plan env2 (req\<lparr>now := t\<rparr>) (cached_route (uri req)) p2 cs2 (fresh (cache s1))"
      by force
    then show ?thesis using d that s1
      by (simp add: run_plan_def cached_def cache_get_def cache_set_def fresh_def write_chunk_def utf8_def)
  qed
  have miss: "serve env (req\<lparr>now := t\<rparr>) (fresh (cache s1))
      = (Inr (), s1\<lparr>cache := cache_set c (uri req) (written s1) (py_int (t + cache_expiry env))\<rparr>)"
    if "of_int expire_at \<le> t" for t
    using sh[of "req\<lparr>now := t\<rparr>" "fresh (cache s1)"] d that s1 p cs rn
    by (simp add: run_plan_def cached_def cache_get_def cache_set_def fresh_def write_chunk_def
          utf8_def finish_notebook_run cache_and_finish_def logged_def html_def)
  have rendered: "\<exists>nbhtml config. render_notebook env nbjson u = Inr (nbhtml, config)
      \<and> written s1 = render_template env ''notebook.html'' ((''body'', Str nbhtml) # config)"
    using rn(1) s1 by (simp add: html_def)
  have within: "of_int expire_at \<le> now req + cache_expiry env
      \<and> now req + cache_expiry env < of_int expire_at + 1"
    if "0 \<le> now req + cache_expiry env"
    using that by (simp add: assms(4) py_int_def)
  from rendered s1 within hit miss show ?thesis by simp
qed

text \<open>
  The theorem at \<^verbatim>\<open>/url/example.org/nb.ipynb\<close>, first served at time 100.9 with the default
  expiry of 60 seconds, so stored until 160, which is within a second of 160.9; then at
  159.9 and at 160.
\<close>

theorem cache_roundtrip_witness:
  "serve example_env \<lparr>uri = ''/url/example.org/nb.ipynb'', now = 1009 / 10\<rparr> (fresh Map.empty)
     = (Inr (),
        \<lparr>cache = [''/url/example.org/nb.ipynb'' \<mapsto> (''<html>notebook.html</html>'', 160)],
         status = 200, headers = [], written = ''<html>notebook.html</html>'',
         calls = [Fetch ''http://example.org/nb.ipynb'',
                  Render (Str ''{nb}'') (Str ''http://example.org/nb.ipynb'')]\<rparr>)
   \<and> serve example_env \<lparr>uri = ''/url/example.org/nb.ipynb'', now = 1599 / 10\<rparr>
        (fresh [''/url/example.org/nb.ipynb'' \<mapsto> (''<html>notebook.html</html>'', 160)])
     = (Inr (),
        \<lparr>cache = [''/url/example.org/nb.ipynb'' \<mapsto> (''<html>notebook.html</html>'', 160)],
         status = 200, headers = [], written = ''<html>notebook.html</html>'', calls = []\<rparr>)
   \<and> serve example_env \<lparr>uri = ''/url/example.org/nb.ipynb'', now = 160\<rparr>
        (fresh [''/url/example.org/nb.ipynb'' \<mapsto> (''<html>notebook.html</html>'', 160)])
     = (Inr (),
        \<lparr>cache = [''/url/example.org/nb.ipynb'' \<mapsto> (''<html>notebook.html</html>'', 220)],
         status = 200, headers = [], written = ''<html>notebook.html</html>'',
         calls = [Fetch ''http://example.org/nb.ipynb'',
                  Render (Str ''{nb}'') (Str ''http://example.org/nb.ipynb'')]\<rparr>)
   \<and> (160 :: real) \<le> 1009 / 10 + cache_expiry example_env
   \<and> 1009 / 10 + cache_expiry example_env < (161 :: real)"
proof -
  let ?req = "\<lparr>uri = ''/url/example.org/nb.ipynb'', now = 1009 / 10\<rparr>"
  let ?html = "''<html>notebook.html</html>''"
  let ?s1 = "\<lparr>cache = [''/url/example.org/nb.ipynb'' \<mapsto> (?html, 160)],
         status = 200, headers = [], written = ?html,
         calls = [Fetch ''http://example.org/nb.ipynb'',
                  Render (Str ''{nb}'') (Str ''http://example.org/nb.ipynb'')]\<rparr>"
  have route: "find_handler handlers (path_of ''/url/example.org/nb.ipynb'')
     = Some (URLHandler, [[], ''example.org/nb.ipynb''])"
    by code_simp
  have exp: "py_int (1009 / 10 + cache_expiry example_env) = 160"
    by (simp add: py_int_def cache_expiry_def example_env_def)
  have run: "serve example_env ?req (fresh Map.empty) = (Inr (), ?s1)"
    by (simp add: route URLHandler_get_def URLHandler_get_body_def eval_simps py_int_def)
  have miss: "cache_get Map.empty (now ?req) (uri ?req) = None"
    by (simp add: cache_get_def)
  have mem: "Render (Str ''{nb}'') (Str ''http://example.org/nb.ipynb'') \<in> set (calls ?s1)"
    by simp
  have e: "(160::int) = py_int (now ?req + cache_expiry example_env)"
    using exp by simp
  note rt = cache_roundtrip[OF run miss mem e]
  from rt have "\<forall>env2 t. t < of_int 160 \<longrightarrow>
            serve env2 (?req\<lparr>now := t\<rparr>) (fresh (cache ?s1))
              = (Inr (), (fresh (cache ?s1))\<lparr>written := written ?s1\<rparr>)"
    by blast
  then have "serve example_env (?req\<lparr>now := 1599 / 10\<rparr>) (fresh (cache ?s1))
      = (Inr (), (fresh (cache ?s1))\<lparr>written := written ?s1\<rparr>)"
    by simp
  moreover from rt have "\<forall>t. of_int 160 \<le> t \<longrightarrow>
            serve example_env (?req\<lparr>now := t\<rparr>) (fresh (cache ?s1))
              = (Inr (), ?s1\<lparr>cache := cache_set Map.empty (uri ?req) (written ?s1)
                                    (py_int (t + cache_expiry example_env))\<rparr>)"
    by blast
  then have "serve example_env (?req\<lparr>now := 160\<rparr>) (fresh (cache ?s1))
      = (Inr (), ?s1\<lparr>cache := cache_set Map.empty (uri ?req) (written ?s1)
             (py_int (160 + cache_expiry example_env))\<rparr>)"
    by simp
  moreover have "py_int (160 + cache_expiry example_env) = 220"
    by (simp add: py_int_def cache_expiry_def example_env_def)
  moreover from rt have "0 \<le> now ?req + cache_expiry example_env \<longrightarrow>
            of_int 160 \<le> now ?req + cache_expiry example_env
          \<and> now ?req + cache_expiry example_env < of_int 160 + 1"
    by blast
  then have "(160 :: real) \<le> 1009 / 10 + cache_expiry example_env
      \<and> 1009 / 10 + cache_expiry example_env < (161 :: real)"
    by (simp add: cache_expiry_def example_env_def)
  ultimately show ?thesis using run
    by (simp add: fresh_def cache_set_def)
qed

text \<open>
  C1 as stated fails there: the entry written at 100.9 is stored until 160, and the request
  at 160.5, before the 60 seconds have elapsed, is a miss that calls the provider and the
  pool again.
\<close>

theorem miss_before_ttl_elapsed:
  "cache_expiry example_env = 60
   \<and> serve example_env \<lparr>uri = ''/url/example.org/nb.ipynb'', now = 1009 / 10\<rparr> (fresh Map.empty)
     = (Inr (),
        \<lparr>cache = [''/url/example.org/nb.ipynb'' \<mapsto> (''<html>notebook.html</html>'', 160)],
         status = 200, headers = [], written = ''<html>notebook.html</html>'',
         calls = [Fetch ''http://example.org/nb.ipynb'',
                  Render (Str ''{nb}'') (Str ''http://example.org/nb.ipynb'')]\<rparr>)
   \<and> (321 / 2 :: real) < 1009 / 10 + 60
   \<and> serve example_env \<lparr>uri = ''/url/example.org/nb.ipynb'', now = 321 / 2\<rparr>
        (fresh [''/url/example.org/nb.ipynb'' \<mapsto> (''<html>notebook.html</html>'', 160)])
     = (Inr (),
        \<lparr>cache = [''/url/example.org/nb.ipynb'' \<mapsto> (''<html>notebook.html</html>'', 220)],
         status = 200, headers = [], written = ''<html>notebook.html</html>'',
         calls = [Fetch ''http://example.org/nb.ipynb'',
                  Render (Str ''{nb}'') (Str ''http://example.org/nb.ipynb'')]\<rparr>)"
proof -
  have route: "find_handler handlers (path_of ''/url/example.org/nb.ipynb'')
     = Some (URLHandler, [[], ''example.org/nb.ipynb''])"
    by code_simp
  show ?thesis
    by (simp add: route URLHandler_get_def URLHandler_get_body_def eval_simps py_int_def)
qed

subsection \<open>GitHub files\<close>

lemma serve_blob:
  assumes "find_handler handlers (path_of (uri req)) = Some (GitHubBlobHandler, gs)"
    and "map (url_unescape env) gs = [user, repo, ref, path]"
  shows "serve env req = cached req (GitHubBlobHandler_get_body env req user repo ref path)"
  using assms by (simp add: serve_def GitHubBlobHandler_get_def)

text \<open>
  C10. A GitHub blob request that misses the cache, whose contents call succeeds with a single
  object whose \<^verbatim>\<open>content\<close> decodes from base64 and whose \<^verbatim>\<open>name\<close> does not end in
  \<^verbatim>\<open>.ipynb\<close>, is answered 200 with the decoded bytes as the body and the header
  \<^verbatim>\<open>Content-Type: text/plain\<close>; the cache is left as it was.
\<close>

theorem blob_plain_file_not_cached:
  assumes "find_handler handlers (path_of (uri req)) = Some (GitHubBlobHandler, gs)"
    and "map (url_unescape env) gs = [user, repo, ref, path]"
    and "cache_get c (now req) (uri req) = None"
    and "error (get_contents env user repo path ref) = None"
    and "bind_e (decode_utf8 env (body (get_contents env user repo path ref))) (json_loads env)
           = Inr contents"
    and "decode_content env contents = Inr filedata"
    and "bind_e (subscript contents ''name'') as_str = Inr name"
    and "\<not> endswith name ''.ipynb''"
  shows "serve env req (fresh c)
       = (Inr (), \<lparr>cache = c, status = 200, headers = [(''Content-Type'', ''text/plain'')],
                   written = filedata, calls = [GetContents user repo path ref]\<rparr>)"
proof -
  from assms(6) have "\<not> is_list contents"
    by (cases contents) (simp_all add: decode_content_def)
  with assms show ?thesis
    by (simp add: serve_blob cached_def GitHubBlobHandler_get_body_def run_simps fresh_def
          set_header_def write_chunk_def utf8_def)
qed

text \<open>
  C9. For a GitHub blob request that misses the cache: when the contents call succeeds with
  an object (carrying the \<^verbatim>\<open>url\<close> that the log line reads) whose \<^verbatim>\<open>content\<close> fails to decode
  from base64, or whose decoded bytes, for a name ending in \<^verbatim>\<open>.ipynb\<close>, fail to decode as
  UTF-8, the handler raises \<^verbatim>\<open>web.HTTPError(400)\<close> and the client is answered 400. A failed
  fetch is reported differently: the client's error is raised again as it is.
\<close>

theorem blob_decode_error_400:
  assumes "find_handler handlers (path_of (uri req)) = Some (GitHubBlobHandler, gs)"
    and "map (url_unescape env) gs = [user, repo, ref, path]"
    and "cache_get c (now req) (uri req) = None"
    and "response = get_contents env user repo path ref"
    and "s' = (fresh c)\<lparr>calls := [GetContents user repo path ref]\<rparr>"
  shows "(error response = None
          \<and> bind_e (decode_utf8 env (body response)) (json_loads env) = Inr contents
          \<and> subscript contents ''url'' = Inr api_url
          \<and> (decode_content env contents = Inl e
              \<or> decode_content env contents = Inr filedata
                \<and> bind_e (subscript contents ''name'') as_str = Inr name
                \<and> endswith name ''.ipynb''
                \<and> decode_utf8 env filedata = Inl e)
          \<longrightarrow> serve env req (fresh c) = (Inl (HTTPError 400), s')
              \<and> client_status (serve env req (fresh c)) = 400)
       \<and> (error response = Some fetch_error
          \<longrightarrow> serve env req (fresh c) = (Inl (FetchFailed fetch_error), s')
              \<and> client_status (serve env req (fresh c)) = 500)"
proof -
  have "\<not> is_list contents" if "subscript contents ''url'' = Inr api_url"
    using that by (cases contents) simp_all
  with assms show ?thesis
    by (auto simp: serve_blob cached_def GitHubBlobHandler_get_body_def run_simps fresh_def)
qed

lemma endswith_slash: "endswith s ''/'' = (s \<noteq> [] \<and> last s = CHR ''/'')"
proof (cases s rule: rev_cases)
  case Nil
  then show ?thesis by (simp add: endswith_def)
next
  case (snoc ys y)
  then show ?thesis by (simp add: endswith_def)
qed

subsection \<open>Tree and blob\<close>


lemmas handler_simps = URLHandler_get_def URLHandler_get_body_def GistHandler_get_def
  GistHandler_get_body_def GitHubUserHandler_get_def GitHubUserHandler_get_body_def
  GitHubTreeHandler_get_def GitHubTreeHandler_get_body_def GitHubBlobHandler_get_def
  GitHubBlobHandler_get_body_def AddSlashHandler_get_def RemoveSlashHandler_get_def
  GitHubRepoHandler_get_def GitHubRedirectHandler_get_def RawGitHubURLHandler_get_def
  GistRedirectHandler_get_def decode_content_def

text \<open>The theorem at \<^verbatim>\<open>/github/acme/demo/blob/main/notes.txt\<close>.\<close>

theorem blob_plain_file_not_cached_witness:
  "serve example_env \<lparr>uri = ''/github/acme/demo/blob/main/notes.txt'', now = 0\<rparr> (fresh Map.empty)
     = (Inr (), \<lparr>cache = Map.empty, status = 200, headers = [(''Content-Type'', ''text/plain'')],
                 written = ''hello'', calls = [GetContents ''acme'' ''demo'' ''notes.txt'' ''main'']\<rparr>)"
proof -
  let ?contents = "Dict [(''name'', Str ''notes.txt''), (''url'', Str ''https://api.example/notes''),
                         (''content'', Str ''aGVsbG8='')]"
  have route: "find_handler handlers (path_of ''/github/acme/demo/blob/main/notes.txt'')
     = Some (GitHubBlobHandler, [''acme'', ''demo'', ''main'', ''notes.txt''])"
    by code_simp
  have ends: "\<not> endswith ''notes.txt'' ''.ipynb''"
    by code_simp
  show ?thesis
    by (rule blob_plain_file_not_cached
          [where gs = "[''acme'', ''demo'', ''main'', ''notes.txt'']" and contents = ?contents
             and name = "''notes.txt''"])
       (simp_all add: route ends example_env_def ok_response_def decode_content_def cache_get_def)
qed

text \<open>
  The theorem at a file whose content is not base64, at a notebook whose bytes are not UTF-8,
  and at a path the provider answers 404.
\<close>

theorem blob_decode_error_400_witness:
  "serve example_env \<lparr>uri = ''/github/acme/demo/blob/main/broken.ipynb'', now = 0\<rparr> (fresh Map.empty)
     = (Inl (HTTPError 400),
        (fresh Map.empty)\<lparr>calls := [GetContents ''acme'' ''demo'' ''broken.ipynb'' ''main'']\<rparr>)
   \<and> serve example_env \<lparr>uri = ''/github/acme/demo/blob/main/latin1.ipynb'', now = 0\<rparr> (fresh Map.empty)
     = (Inl (HTTPError 400),
        (fresh Map.empty)\<lparr>calls := [GetContents ''acme'' ''demo'' ''latin1.ipynb'' ''main'']\<rparr>)
   \<and> serve example_env \<lparr>uri = ''/github/acme/demo/blob/main/gone.ipynb'', now = 0\<rparr> (fresh Map.empty)
     = (Inl (FetchFailed (HTTPClientError 404)),
        (fresh Map.empty)\<lparr>calls := [GetContents ''acme'' ''demo'' ''gone.ipynb'' ''main'']\<rparr>)"
proof -
  have r1: "find_handler handlers (path_of ''/github/acme/demo/blob/main/broken.ipynb'')
     = Some (GitHubBlobHandler, [''acme'', ''demo'', ''main'', ''broken.ipynb''])"
    by code_simp
  have r2: "find_handler handlers (path_of ''/github/acme/demo/blob/main/latin1.ipynb'')
     = Some (GitHubBlobHandler, [''acme'', ''demo'', ''main'', ''latin1.ipynb''])"
    by code_simp
  have r3: "find_handler handlers (path_of ''/github/acme/demo/blob/main/gone.ipynb'')
     = Some (GitHubBlobHandler, [''acme'', ''demo'', ''main'', ''gone.ipynb''])"
    by code_simp
  have ends: "endswith ''latin1.ipynb'' ''.ipynb''"
    by code_simp
  have m: "cache_get Map.empty 0 k = None" for k
    by (simp add: cache_get_def)
  have u: "map (url_unescape example_env) gs = gs" for gs
    by (simp add: example_env_def)
  let ?broken = "Dict [(''name'', Str ''broken.ipynb''), (''url'', Str ''https://api.example/broken''),
                       (''content'', Str ''!!'')]"
  let ?latin1 = "Dict [(''name'', Str ''latin1.ipynb''), (''url'', Str ''https://api.example/latin1''),
                       (''content'', Str ''6Q=='')]"
  have a: "serve example_env \<lparr>uri = ''/github/acme/demo/blob/main/broken.ipynb'', now = 0\<rparr> (fresh Map.empty)
     = (Inl (HTTPError 400),
        (fresh Map.empty)\<lparr>calls := [GetContents ''acme'' ''demo'' ''broken.ipynb'' ''main'']\<rparr>)"
    using blob_decode_error_400
      [where req = "\<lparr>uri = ''/github/acme/demo/blob/main/broken.ipynb'', now = 0\<rparr>"
         and env = example_env and c = Map.empty and contents = ?broken
         and e = "OtherError ''binascii.Error''" and api_url = "Str ''https://api.example/broken''",
       OF _ u _ refl refl] r1 m
    by (simp add: example_env_def ok_response_def decode_content_def)
  have b: "serve example_env \<lparr>uri = ''/github/acme/demo/blob/main/latin1.ipynb'', now = 0\<rparr> (fresh Map.empty)
     = (Inl (HTTPError 400),
        (fresh Map.empty)\<lparr>calls := [GetContents ''acme'' ''demo'' ''latin1.ipynb'' ''main'']\<rparr>)"
    using blob_decode_error_400
      [where req = "\<lparr>uri = ''/github/acme/demo/blob/main/latin1.ipynb'', now = 0\<rparr>"
         and env = example_env and c = Map.empty and contents = ?latin1
         and e = "OtherError ''UnicodeDecodeError''" and api_url = "Str ''https://api.example/latin1''"
         and filedata = "[CHR 0xE9]" and name = "''latin1.ipynb''",
       OF _ u _ refl refl] r2 m ends
    by (simp add: example_env_def ok_response_def decode_content_def)
  have c: "serve example_env \<lparr>uri = ''/github/acme/demo/blob/main/gone.ipynb'', now = 0\<rparr> (fresh Map.empty)
     = (Inl (FetchFailed (HTTPClientError 404)),
        (fresh Map.empty)\<lparr>calls := [GetContents ''acme'' ''demo'' ''gone.ipynb'' ''main'']\<rparr>)"
    using blob_decode_error_400
      [where req = "\<lparr>uri = ''/github/acme/demo/blob/main/gone.ipynb'', now = 0\<rparr>"
         and env = example_env and c = Map.empty and fetch_error = "HTTPClientError 404",
       OF _ u _ refl refl] r3 m
    by (simp add: example_env_def not_found_def)
  from a b c show ?thesis by simp
qed

subsection \<open>Gists\<close>

text \<open>
  C3 fails on the code. \<^verbatim>\<open>GistHandler.get\<close> tests \<^verbatim>\<open>if filename:\<close> and then reads
  \<^verbatim>\<open>files[filename]\<close>; its \<^verbatim>\<open>elif filename: raise web.HTTPError(404, ...)\<close> is never reached.
  In the example gist \<^verbatim>\<open>ab12cd34\<close> with the two files \<^verbatim>\<open>a.ipynb\<close> and \<^verbatim>\<open>notes.txt\<close>, the request
  for \<^verbatim>\<open>missing.ipynb\<close> ends in a \<^verbatim>\<open>KeyError\<close>, answered 500; in the gist \<^verbatim>\<open>c0ffee\<close> with the
  one file \<^verbatim>\<open>a.ipynb\<close>, the same request renders that file and is answered 200.
\<close>

theorem gist_missing_file_not_404:
  "serve example_env \<lparr>uri = ''/gist/ab12cd34/missing.ipynb'', now = 0\<rparr> (fresh Map.empty)
     = (Inl (KeyError ''missing.ipynb''), (fresh Map.empty)\<lparr>calls := [GetGist ''ab12cd34'']\<rparr>)
   \<and> client_status
        (serve example_env \<lparr>uri = ''/gist/ab12cd34/missing.ipynb'', now = 0\<rparr> (fresh Map.empty)) = 500
   \<and> client_status
        (serve example_env \<lparr>uri = ''/gist/c0ffee/missing.ipynb'', now = 0\<rparr> (fresh Map.empty)) = 200
   \<and> calls (snd (serve example_env \<lparr>uri = ''/gist/c0ffee/missing.ipynb'', now = 0\<rparr> (fresh Map.empty)))
     = [GetGist ''c0ffee'', Render (Str ''{nb}'') (Str ''https://gist.example/a.ipynb'')]"
proof -
  have r1: "find_handler handlers (path_of ''/gist/ab12cd34/missing.ipynb'')
     = Some (GistHandler, [''ab12cd34'', ''missing.ipynb''])"
    by code_simp
  have r2: "find_handler handlers (path_of ''/gist/c0ffee/missing.ipynb'')
     = Some (GistHandler, [''c0ffee'', ''missing.ipynb''])"
    by code_simp
  have a: "serve example_env \<lparr>uri = ''/gist/ab12cd34/missing.ipynb'', now = 0\<rparr> (fresh Map.empty)
     = (Inl (KeyError ''missing.ipynb''), (fresh Map.empty)\<lparr>calls := [GetGist ''ab12cd34'']\<rparr>)"
    by (simp add: r1 handler_simps eval_simps example_gist2_def)
  have b: "serve example_env \<lparr>uri = ''/gist/c0ffee/missing.ipynb'', now = 0\<rparr> (fresh Map.empty)
     = (Inr (), \<lparr>cache = [''/gist/c0ffee/missing.ipynb'' \<mapsto> (''<html>notebook.html</html>'', 60)],
         status = 200, headers = [], written = ''<html>notebook.html</html>'',
         calls = [GetGist ''c0ffee'', Render (Str ''{nb}'') (Str ''https://gist.example/a.ipynb'')]\<rparr>)"
    by (simp add: r2 handler_simps eval_simps example_gist1_def py_int_def)
  from a b show ?thesis by simp
qed

text \<open>
  C8. A gist request without a filename segment that misses the cache, for a gist whose
  \<^verbatim>\<open>files\<close> is a dict: with exactly one file (of a non-empty name, carrying \<^verbatim>\<open>content\<close> and
  \<^verbatim>\<open>raw_url\<close>) the request is \<open>finish_notebook\<close> of that file's content; with N > 1 files it
  is the page \<^verbatim>\<open>gistlist.html\<close> over one entry per file, N entries, whose paths are the file
  names and are distinct.
\<close>

theorem gist_without_filename:
  assumes "find_handler handlers (path_of (uri req)) = Some (GistHandler, [g])"
    and "cache_get c (now req) (uri req) = None"
    and "response = get_gist env (url_unescape env g)"
    and "error response = None"
    and "bind_e (decode_utf8 env (body response)) (json_loads env) = Inr data"
    and "subscript data ''id'' = Inr gist_id"
    and "subscript data ''files'' = Inr (Dict files)"
    and "is_dict files"
    and "s1 = (fresh c)\<lparr>calls := [GetGist (url_unescape env g)]\<rparr>"
  shows "(files = [(name, only)] \<and> name \<noteq> []
            \<and> subscript only ''content'' = Inr content \<and> subscript only ''raw_url'' = Inr raw_url
          \<longrightarrow> serve env req (fresh c) = finish_notebook env req content raw_url s1)
       \<and> (1 < length files
          \<longrightarrow> serve env req (fresh c)
                = cache_and_finish env req
                    (render_template env ''gistlist.html''
                       [(''entries'', List (map (gist_entry env gist_id) files))]) s1
            \<and> length (map (gist_entry env gist_id) files) = length files
            \<and> map (\<lambda>entry. subscript entry ''path'') (map (gist_entry env gist_id) files)
                = map (\<lambda>item. Inr (Str (fst item))) files
            \<and> distinct (map (\<lambda>entry. subscript entry ''path'') (map (gist_entry env gist_id) files)))"
proof -
  have sv: "serve env req (fresh c) = GistHandler_get_body env req (url_unescape env g) [] (fresh c)"
    using assms(1,2) by (simp add: serve_def GistHandler_get_def cached_def)
  have paths: "map (\<lambda>entry. subscript entry ''path'') (map (gist_entry env gist_id) files)
                = map (\<lambda>item. Inr (Str (fst item))) files"
    by (simp add: gist_entry_def)
  have d0: "distinct (map (\<lambda>item. (Inr (Str (fst item)) :: exn + pyval)) files)"
    using assms(8) by (simp add: is_dict_def distinct_map inj_on_def comp_def)
  have dist:
    "distinct (map (\<lambda>entry. subscript entry ''path'') (map (gist_entry env gist_id) files))"
    unfolding paths by (rule d0)
  have one: "serve env req (fresh c) = finish_notebook env req content raw_url s1"
    if "files = [(name, only)]" "name \<noteq> []" "subscript only ''content'' = Inr content"
      "subscript only ''raw_url'' = Inr raw_url"
    using that assms(3-7,9) sv
    by (simp add: GistHandler_get_body_def run_simps fresh_def)
  have many: "serve env req (fresh c)
                = cache_and_finish env req
                    (render_template env ''gistlist.html''
                       [(''entries'', List (map (gist_entry env gist_id) files))]) s1"
    if "1 < length files"
    using that assms(3-7,9) sv
    by (simp add: GistHandler_get_body_def run_simps fresh_def)
  from one many paths dist show ?thesis by simp
qed

text \<open>The theorem at the example gists \<^verbatim>\<open>c0ffee\<close> (one file) and \<^verbatim>\<open>ab12cd34\<close> (two files).\<close>

theorem gist_without_filename_witness:
  "serve example_env \<lparr>uri = ''/gist/c0ffee'', now = 0\<rparr> (fresh Map.empty)
     = (Inr (), \<lparr>cache = [''/gist/c0ffee'' \<mapsto> (''<html>notebook.html</html>'', 60)],
         status = 200, headers = [], written = ''<html>notebook.html</html>'',
         calls = [GetGist ''c0ffee'', Render (Str ''{nb}'') (Str ''https://gist.example/a.ipynb'')]\<rparr>)
   \<and> serve example_env \<lparr>uri = ''/gist/ab12cd34'', now = 0\<rparr> (fresh Map.empty)
     = (Inr (), \<lparr>cache = [''/gist/ab12cd34'' \<mapsto> (''<html>gistlist.html</html>'', 60)],
         status = 200, headers = [], written = ''<html>gistlist.html</html>'',
         calls = [GetGist ''ab12cd34'']\<rparr>)
   \<and> map (\<lambda>entry. subscript entry ''path'')
         (map (gist_entry example_env (Str ''ab12cd34''))
            [(''a.ipynb'', Dict [(''content'', Str ''{nb}''), (''raw_url'', Str ''https://gist.example/a.ipynb'')]),
             (''notes.txt'', Dict [(''content'', Str ''hello''), (''raw_url'', Str ''https://gist.example/notes.txt'')])])
     = [Inr (Str ''a.ipynb''), Inr (Str ''notes.txt'')]"
proof -
  let ?a = "Dict [(''content'', Str ''{nb}''), (''raw_url'', Str ''https://gist.example/a.ipynb'')]"
  let ?n = "Dict [(''content'', Str ''hello''), (''raw_url'', Str ''https://gist.example/notes.txt'')]"
  have r1: "find_handler handlers (path_of (uri \<lparr>uri = ''/gist/c0ffee'', now = 0\<rparr>))
     = Some (GistHandler, [''c0ffee''])"
    by code_simp
  have r2: "find_handler handlers (path_of (uri \<lparr>uri = ''/gist/ab12cd34'', now = 0\<rparr>))
     = Some (GistHandler, [''ab12cd34''])"
    by code_simp
  have m: "cache_get Map.empty t k = None" for t k
    by (simp add: cache_get_def)
  have one: "serve example_env \<lparr>uri = ''/gist/c0ffee'', now = 0\<rparr> (fresh Map.empty)
      = finish_notebook example_env \<lparr>uri = ''/gist/c0ffee'', now = 0\<rparr> (Str ''{nb}'')
          (Str ''https://gist.example/a.ipynb'') ((fresh Map.empty)\<lparr>calls := [GetGist ''c0ffee'']\<rparr>)"
    using gist_without_filename
      [OF r1 m refl _ _ _ _ _ refl,
       where data = example_gist1 and gist_id = "Str ''c0ffee''" and files = "[(''a.ipynb'', ?a)]"
         and name = "''a.ipynb''" and only = ?a and content = "Str ''{nb}''"
         and raw_url = "Str ''https://gist.example/a.ipynb''"]
    by (simp add: example_env_def ok_response_def example_gist1_def is_dict_def)
  have many: "serve example_env \<lparr>uri = ''/gist/ab12cd34'', now = 0\<rparr> (fresh Map.empty)
      = cache_and_finish example_env \<lparr>uri = ''/gist/ab12cd34'', now = 0\<rparr>
          (render_template example_env ''gistlist.html''
             [(''entries'', List (map (gist_entry example_env (Str ''ab12cd34''))
                [(''a.ipynb'', ?a), (''notes.txt'', ?n)]))])
          ((fresh Map.empty)\<lparr>calls := [GetGist ''ab12cd34'']\<rparr>)
    \<and> map (\<lambda>entry. subscript entry ''path'')
         (map (gist_entry example_env (Str ''ab12cd34'')) [(''a.ipynb'', ?a), (''notes.txt'', ?n)])
     = [Inr (Str ''a.ipynb''), Inr (Str ''notes.txt'')]"
    using gist_without_filename
      [OF r2 m refl _ _ _ _ _ refl,
       where data = example_gist2 and gist_id = "Str ''ab12cd34''"
         and files = "[(''a.ipynb'', ?a), (''notes.txt'', ?n)]"]
    by (simp add: example_env_def ok_response_def example_gist2_def is_dict_def)
  from one many show ?thesis
    by (simp add: eval_simps py_int_def)
qed

subsection \<open>Legacy GitHub URLs\<close>

text \<open>
  C5 fails on the code. The route of \<^verbatim>\<open>GitHubRedirectHandler\<close> matches \<^verbatim>\<open>tree\<close> or \<^verbatim>\<open>blob\<close> in
  a group that does not capture, and the handler builds \<^verbatim>\<open>/github/user/repo/ref/path\<close>
  without either: no route matches that target, and it is answered 404. The raw host
  variant, \<^verbatim>\<open>RawGitHubURLHandler\<close>, does insert \<^verbatim>\<open>blob\<close>, and its target is routed.
\<close>

theorem legacy_github_redirect_target_unrouted:
  "find_handler handlers ''/url/github.com/ipython/ipython/blob/master/README.ipynb''
     = Some (GitHubRedirectHandler, [''ipython'', ''ipython'', ''master'', ''README.ipynb''])
   \<and> location (serve example_env
         \<lparr>uri = ''/url/github.com/ipython/ipython/blob/master/README.ipynb'', now = 0\<rparr>
         (fresh Map.empty))
     = Some ''/github/ipython/ipython/master/README.ipynb''
   \<and> find_handler handlers ''/github/ipython/ipython/master/README.ipynb'' = None
   \<and> client_status (serve example_env
         \<lparr>uri = ''/github/ipython/ipython/master/README.ipynb'', now = 0\<rparr> (fresh Map.empty))
     = 404
   \<and> location (serve example_env
         \<lparr>uri = ''/urls/raw.github.com/ipython/ipython/master/README.ipynb'', now = 0\<rparr>
         (fresh Map.empty))
     = Some ''/github/ipython/ipython/blob/master/README.ipynb''
   \<and> find_handler handlers ''/github/ipython/ipython/blob/master/README.ipynb''
     = Some (GitHubBlobHandler, [''ipython'', ''ipython'', ''master'', ''README.ipynb''])"
proof -
  have p: "path_of ''/url/github.com/ipython/ipython/blob/master/README.ipynb''
             = ''/url/github.com/ipython/ipython/blob/master/README.ipynb''"
    "path_of ''/github/ipython/ipython/master/README.ipynb''
             = ''/github/ipython/ipython/master/README.ipynb''"
    "path_of ''/urls/raw.github.com/ipython/ipython/master/README.ipynb''
             = ''/urls/raw.github.com/ipython/ipython/master/README.ipynb''"
    by code_simp+
  have r1: "find_handler handlers ''/url/github.com/ipython/ipython/blob/master/README.ipynb''
     = Some (GitHubRedirectHandler, [''ipython'', ''ipython'', ''master'', ''README.ipynb''])"
    by code_simp
  have r2: "find_handler handlers ''/github/ipython/ipython/master/README.ipynb'' = None"
    by code_simp
  have r3: "find_handler handlers ''/urls/raw.github.com/ipython/ipython/master/README.ipynb''
     = Some (RawGitHubURLHandler, [''ipython'', ''ipython'', ''master/README.ipynb''])"
    by code_simp
  have r4: "find_handler handlers ''/github/ipython/ipython/blob/master/README.ipynb''
     = Some (GitHubBlobHandler, [''ipython'', ''ipython'', ''master'', ''README.ipynb''])"
    by code_simp
  show ?thesis
    by (simp add: p r1 r2 r3 r4 serve_def handler_simps location_def redirect_def set_header_def
          utf8_def fresh_def example_env_def)
qed

subsection \<open>Routing\<close>

lemma or_else_None [simp]: "or_else x None = x"
  by (cases x) simp_all

lemma strip_prefix_Some: "strip_prefix l s = Some t \<longleftrightarrow> s = l @ t"
  by (induction l s rule: strip_prefix.induct) auto

lemma strip_prefix_append [simp]: "strip_prefix l (l @ t) = Some t"
  by (simp add: strip_prefix_Some)

lemma slash_not_word [simp]: "\<not> is_word CHR ''/''"
  by (simp add: is_word_def)

lemma not_slash [simp]: "\<not> in_cls c CHR ''/''"
  by (cases c) simp_all

lemma word_not_slash: "in_cls Word x \<Longrightarrow> in_cls NotSlash x"
  by (cases "x = CHR ''/''") simp_all

lemma rejects_at_end [simp]: "rejects c at_end"
  by (simp add: rejects_def at_end_def)

lemma rejects_lit [simp]: "\<not> in_cls c x0 \<Longrightarrow> rejects c (lit (x0 # l) k)"
  by (auto simp: rejects_def lit_def)

lemma group_det:
  assumes "rejects c k"
  shows "group c k acc s =
     (if acc @ takeWhile (in_cls c) s = [] then None
      else map_option (Cons (acc @ takeWhile (in_cls c) s)) (k (dropWhile (in_cls c) s)))"
proof (induction s arbitrary: acc)
  case Nil
  then show ?case by simp
next
  case (Cons x xs)
  show ?case
  proof (cases "in_cls c x")
    case True
    with assms have "k (x # xs) = None" by (simp add: rejects_def)
    with True Cons[of "acc @ [x]"] show ?thesis by (simp add: Let_def)
  next
    case False
    then show ?thesis by (simp add: Let_def)
  qed
qed

lemma group_start:
  "rejects c k \<Longrightarrow> group c k [] s =
     (if takeWhile (in_cls c) s = [] then None
      else map_option (Cons (takeWhile (in_cls c) s)) (k (dropWhile (in_cls c) s)))"
  using group_det[of c k "[]" s] by simp

lemma rest_at_end: "rest at_end acc s = Some [acc @ s]"
  by (induction s arbitrary: acc) (simp_all add: at_end_def)

lemma takeWhile_seg [simp]:
  "list_all P xs \<Longrightarrow> \<not> P y \<Longrightarrow> takeWhile P (xs @ y # ys) = xs"
  by (induction xs) simp_all

lemma dropWhile_seg [simp]:
  "list_all P xs \<Longrightarrow> \<not> P y \<Longrightarrow> dropWhile P (xs @ y # ys) = y # ys"
  by (induction xs) simp_all

lemma takeWhile_all [simp]: "list_all P xs \<Longrightarrow> takeWhile P xs = xs"
  by (induction xs) simp_all

lemma dropWhile_all [simp]: "list_all P xs \<Longrightarrow> dropWhile P xs = []"
  by (induction xs) simp_all

lemma dropWhile_stops: "\<not> P y \<Longrightarrow> dropWhile P (xs @ y # ys) \<noteq> []"
  by (induction xs) simp_all

lemma at_end_dropWhile [simp]: "at_end (dropWhile (in_cls c) (xs @ CHR ''/'' # ys)) = None"
  using dropWhile_stops[of "in_cls c" "CHR ''/''" xs ys] by (simp add: at_end_def)

lemma slash_at_end_dropWhile [simp]:
  assumes "list_all (in_cls NotSlash) r" and "ys \<noteq> []"
  shows "lit ''/'' at_end (dropWhile (in_cls Word) (r @ CHR ''/'' # ys)) = None"
  using assms
proof (induction r)
  case Nil
  then show ?case by (simp add: lit_def at_end_def)
next
  case (Cons x xs)
  then show ?case by (cases "in_cls Word x") (auto simp: lit_def)
qed

lemma path_of_noquery: "CHR ''?'' \<notin> set u \<Longrightarrow> path_of u = u"
  by (auto simp: path_of_def takeWhile_eq_all_conv)

lemma add_slash_routes:
  assumes "find_handler handlers p = Some (AddSlashHandler, gs)"
  shows "rx_match [Lit ''/github/'', Group Word] p = Some gs
       \<or> rx_match [Lit ''/github/'', Group Word, Lit ''/'', Group Word] p = Some gs
       \<or> rx_match [Lit ''/github/'', Group Word, Lit ''/'', Group NotSlash, Lit ''/tree/'',
                     Group NotSlash] p = Some gs"
  using assms unfolding handlers_def find_handler.simps
  by (auto split: option.splits)

lemma lit_Nil [simp]: "lit [] k = k"
  by (rule ext) (simp add: lit_def)

lemma lit_Cons: "lit (x # l) k s = (case s of [] \<Rightarrow> None | y # ys \<Rightarrow> if x = y then lit l k ys else None)"
  by (cases s) (simp_all add: lit_def)

lemma lit_Cons_Cons [simp]: "lit (x # l) k (y # ys) = (if x = y then lit l k ys else None)"
  by (simp add: lit_Cons)

lemma lit_Cons_Nil [simp]: "lit (x # l) k [] = None"
  by (simp add: lit_Cons)

lemma lit_Some_iff: "lit l k s = Some g \<longleftrightarrow> (\<exists>t. s = l @ t \<and> k t = Some g)"
  by (auto simp: lit_def strip_prefix_Some split: option.splits)

lemma group_at_end_iff:
  "group c at_end [] t = Some gs \<longleftrightarrow> t \<noteq> [] \<and> list_all (in_cls c) t \<and> gs = [t]"
proof -
  have "dropWhile (in_cls c) t = [] \<longleftrightarrow> list_all (in_cls c) t"
    by (simp add: dropWhile_eq_Nil_conv list_all_iff)
  moreover have "list_all (in_cls c) t \<Longrightarrow> takeWhile (in_cls c) t = t"
    by simp
  moreover have "t = [] \<Longrightarrow> takeWhile (in_cls c) t = []"
    by simp
  ultimately show ?thesis
    by (auto simp: group_start at_end_def)
qed

lemma group_slash_iff:
  "group c (lit (CHR ''/'' # l) k) [] t = Some gs \<longleftrightarrow>
     (\<exists>a b g. t = a @ CHR ''/'' # b \<and> a \<noteq> [] \<and> list_all (in_cls c) a \<and> lit l k b = Some g
        \<and> gs = a # g)"
proof
  assume "group c (lit (CHR ''/'' # l) k) [] t = Some gs"
  then obtain g where a: "takeWhile (in_cls c) t \<noteq> []"
    and g: "lit (CHR ''/'' # l) k (dropWhile (in_cls c) t) = Some g"
    and gs: "gs = takeWhile (in_cls c) t # g"
    by (auto simp: group_start split: if_splits)
  from g obtain b where d: "dropWhile (in_cls c) t = CHR ''/'' # b" and b: "lit l k b = Some g"
    by (cases "dropWhile (in_cls c) t") (auto split: if_splits)
  have "t = takeWhile (in_cls c) t @ dropWhile (in_cls c) t" by simp
  with d have "t = takeWhile (in_cls c) t @ CHR ''/'' # b" by simp
  moreover have "list_all (in_cls c) (takeWhile (in_cls c) t)"
    by (auto simp: list_all_iff dest: set_takeWhileD)
  ultimately show "\<exists>a b g. t = a @ CHR ''/'' # b \<and> a \<noteq> [] \<and> list_all (in_cls c) a
      \<and> lit l k b = Some g \<and> gs = a # g"
    using a b gs by blast
next
  assume "\<exists>a b g. t = a @ CHR ''/'' # b \<and> a \<noteq> [] \<and> list_all (in_cls c) a \<and> lit l k b = Some g
      \<and> gs = a # g"
  then show "group c (lit (CHR ''/'' # l) k) [] t = Some gs"
    by (auto simp: group_start)
qed

lemma form_user:
  assumes "rx_match [Lit ''/github/'', Group Word] p = Some gs"
  shows "\<exists>u. p = ''/github/'' @ u \<and> u \<noteq> [] \<and> list_all (in_cls Word) u \<and> gs = [u]"
  using assms by (auto simp: lit_Some_iff group_at_end_iff simp del: lit_Cons_Cons)

lemma form_repo:
  assumes "rx_match [Lit ''/github/'', Group Word, Lit ''/'', Group Word] p = Some gs"
  shows "\<exists>u r. p = ''/github/'' @ u @ ''/'' @ r \<and> u \<noteq> [] \<and> list_all (in_cls Word) u
           \<and> r \<noteq> [] \<and> list_all (in_cls Word) r \<and> gs = [u, r]"
  using assms by (auto simp: lit_Some_iff group_at_end_iff group_slash_iff)

lemma form_tree:
  assumes "rx_match [Lit ''/github/'', Group Word, Lit ''/'', Group NotSlash, Lit ''/tree/'',
                      Group NotSlash] p = Some gs"
  shows "\<exists>u r f. p = ''/github/'' @ u @ ''/'' @ r @ ''/tree/'' @ f \<and> u \<noteq> [] \<and> list_all (in_cls Word) u
           \<and> r \<noteq> [] \<and> list_all (in_cls NotSlash) r
           \<and> f \<noteq> [] \<and> list_all (in_cls NotSlash) f \<and> gs = [u, r, f]"
  using assms by (auto simp: lit_Some_iff group_at_end_iff group_slash_iff)

lemmas route_simps = handlers_def group_start rest_at_end at_end_def

lemma route_user_slash:
  assumes "u \<noteq> []" and "list_all (in_cls Word) u"
  shows "find_handler handlers (''/github/'' @ u @ ''/'') = Some (GitHubUserHandler, [u])"
  using assms by (simp add: route_simps)

lemma route_repo_slash:
  assumes "u \<noteq> []" and "list_all (in_cls Word) u" and "r \<noteq> []" and "list_all (in_cls Word) r"
  shows "find_handler handlers (''/github/'' @ u @ ''/'' @ r @ ''/'') = Some (GitHubRepoHandler, [u, r])"
  using assms by (simp add: route_simps)

lemma route_tree_slash:
  assumes "u \<noteq> []" and "list_all (in_cls Word) u" and "r \<noteq> []" and "list_all (in_cls NotSlash) r"
    and "f \<noteq> []" and "list_all (in_cls NotSlash) f"
  shows "find_handler handlers (''/github/'' @ u @ ''/'' @ r @ ''/tree/'' @ f @ ''/'')
       = Some (GitHubTreeHandler, [u, r, f, []])"
  using assms by (simp add: route_simps)

lemma location_user:
  "location (GitHubUserHandler_get env rq user (fresh c)) = None"
  by (auto simp: GitHubUserHandler_get_def GitHubUserHandler_get_body_def cached_def run_simps
        location_def cache_and_finish_def write_chunk_def fresh_def
      split: option.splits sum.splits)

lemma location_tree:
  assumes "endswith (uri rq) ''/''"
  shows "location (GitHubTreeHandler_get env rq user repo ref path (fresh c))
       \<in> {None, Some (''/github/'' @ user @ ''/'' @ repo @ ''/blob/'' @ ref @ ''/'' @ rstrip_slash path)}"
  using assms
  by (auto simp: GitHubTreeHandler_get_def GitHubTreeHandler_get_body_def cached_def run_simps
        location_def cache_and_finish_def write_chunk_def redirect_def set_header_def utf8_def
        fresh_def Let_def
      split: option.splits sum.splits)

lemma location_redirect [simp]: "location (Inr (), redirect url (fresh c)) = Some url"
  by (simp add: location_def redirect_def set_header_def utf8_def fresh_def)

lemma endswith_append_slash [simp]: "endswith (s @ ''/'') ''/''"
  by (simp add: endswith_slash)

lemma rstrip_slash_Nil [simp]: "rstrip_slash [] = []"
  by (simp add: rstrip_slash_def)

lemma list_all_word_not_slash: "list_all (in_cls Word) r \<Longrightarrow> list_all (in_cls NotSlash) r"
  by (induction r) (simp_all add: word_not_slash del: in_cls.simps)





subsection \<open>Trailing slashes\<close>

text \<open>
  C7, as the code has it. Let a path without query string match a route of \<^verbatim>\<open>AddSlashHandler\<close>
  (user root, repo root, tree root), and let percent-decoding leave strings of word
  characters as they are. Then the request is redirected to the path with a slash appended.
  For a user root that target is served by \<^verbatim>\<open>GitHubUserHandler\<close>, which never redirects. For
  a tree root it is served by \<^verbatim>\<open>GitHubTreeHandler\<close>, which redirects only to the blob form,
  when the provider says the root is not a directory. For a repo root it is served by
  \<^verbatim>\<open>GitHubRepoHandler\<close>, which redirects once more, to \<^verbatim>\<open>tree/master/\<close> under the repo, a
  tree path that ends in a slash and is served in the same way as a tree root.
\<close>

theorem add_slash_redirect:
  assumes "find_handler handlers (path_of (uri req)) = Some (AddSlashHandler, gs)"
    and "CHR ''?'' \<notin> set (uri req)"
    and "\<forall>s. list_all (in_cls Word) s \<longrightarrow> url_unescape env s = s"
  shows "location (serve env req (fresh c)) = Some (uri req @ ''/'')
       \<and> ((\<exists>user. gs = [user]
             \<and> find_handler handlers (uri req @ ''/'') = Some (GitHubUserHandler, [user])
             \<and> (\<forall>t c'. location (serve env \<lparr>uri = uri req @ ''/'', now = t\<rparr> (fresh c')) = None))
         \<or> (\<exists>user repo. gs = [user, repo]
             \<and> find_handler handlers (uri req @ ''/'') = Some (GitHubRepoHandler, [user, repo])
             \<and> (\<forall>t c'. location (serve env \<lparr>uri = uri req @ ''/'', now = t\<rparr> (fresh c'))
                        = Some (uri req @ ''/tree/master/''))
             \<and> find_handler handlers (uri req @ ''/tree/master/'')
                 = Some (GitHubTreeHandler, [user, repo, ''master'', []])
             \<and> (\<forall>t c'. location (serve env \<lparr>uri = uri req @ ''/tree/master/'', now = t\<rparr> (fresh c'))
                        \<in> {None, Some (uri req @ ''/blob/master/'')}))
         \<or> (\<exists>user repo ref. gs = [user, repo, ref]
             \<and> find_handler handlers (uri req @ ''/'') = Some (GitHubTreeHandler, [user, repo, ref, []])
             \<and> (\<forall>t c'. location (serve env \<lparr>uri = uri req @ ''/'', now = t\<rparr> (fresh c'))
                        \<in> {None, Some (''/github/'' @ user @ ''/'' @ url_unescape env repo
                                         @ ''/blob/'' @ url_unescape env ref @ ''/'')})))"
proof -
  have p: "path_of (uri req) = uri req"
    using assms(2) by (rule path_of_noquery)
  have q: "path_of (uri req @ s) = uri req @ s" if "CHR ''?'' \<notin> set s" for s
    using assms(2) that by (simp add: path_of_noquery)
  have first: "location (serve env req (fresh c)) = Some (uri req @ ''/'')"
    using assms(1) by (simp add: serve_def AddSlashHandler_get_def)
  have unq: "url_unescape env s = s" if "list_all (in_cls Word) s" for s
    using assms(3) that by blast
  have sv: "serve env \<lparr>uri = uri req @ s, now = t\<rparr> st
      = dispatch env \<lparr>uri = uri req @ s, now = t\<rparr> h (map (url_unescape env) g) st"
    if "find_handler handlers (uri req @ s) = Some (h, g)" and "CHR ''?'' \<notin> set s" for s h g t st
    using that by (simp add: serve_def q)
  have e: "url_unescape env [] = []"
    by (rule unq) simp
  have slash: "CHR ''?'' \<notin> set ''/''" and master: "CHR ''?'' \<notin> set ''/tree/master/''"
    by simp_all
  from add_slash_routes[OF assms(1)[unfolded p]]
  consider (user) "rx_match [Lit ''/github/'', Group Word] (uri req) = Some gs"
    | (repo) "rx_match [Lit ''/github/'', Group Word, Lit ''/'', Group Word] (uri req) = Some gs"
    | (tree) "rx_match [Lit ''/github/'', Group Word, Lit ''/'', Group NotSlash, Lit ''/tree/'',
                         Group NotSlash] (uri req) = Some gs"
    by blast
  then show ?thesis
  proof cases
    case user
    from form_user[OF user] obtain u where
      u: "uri req = ''/github/'' @ u" "u \<noteq> []" "list_all (in_cls Word) u" "gs = [u]"
      by blast
    have r: "find_handler handlers (uri req @ ''/'') = Some (GitHubUserHandler, [u])"
      using route_user_slash[OF u(2,3)] u(1) by simp
    have "location (serve env \<lparr>uri = uri req @ ''/'', now = t\<rparr> (fresh c')) = None" for t c'
      unfolding sv[OF r slash] by (simp add: location_user)
    with first r u(4) show ?thesis by blast
  next
    case repo
    from form_repo[OF repo] obtain u r where
      u: "uri req = ''/github/'' @ u @ ''/'' @ r" "u \<noteq> []" "list_all (in_cls Word) u"
         "r \<noteq> []" "list_all (in_cls Word) r" "gs = [u, r]"
      by blast
    have r1: "find_handler handlers (uri req @ ''/'') = Some (GitHubRepoHandler, [u, r])"
      using route_repo_slash[OF u(2,3,4,5)] u(1) by simp
    have l1: "location (serve env \<lparr>uri = uri req @ ''/'', now = t\<rparr> (fresh c'))
                = Some (uri req @ ''/tree/master/'')" for t c'
      unfolding sv[OF r1 slash]
      by (simp add: unq[OF u(3)] unq[OF u(5)] GitHubRepoHandler_get_def u(1))
    have r2: "find_handler handlers (uri req @ ''/tree/master/'')
                = Some (GitHubTreeHandler, [u, r, ''master'', []])"
      using route_tree_slash[OF u(2,3,4) list_all_word_not_slash[OF u(5)], of "''master''"] u(1)
      by simp
    have m: "url_unescape env ''master'' = ''master''"
      by (rule unq) (simp add: is_word_def)
    have l2: "location (serve env \<lparr>uri = uri req @ ''/tree/master/'', now = t\<rparr> (fresh c'))
                \<in> {None, Some (uri req @ ''/blob/master/'')}" for t c'
      using location_tree[of "\<lparr>uri = uri req @ ''/tree/master/'', now = t\<rparr>" env u r "''master''"
          "[]" c']
      unfolding sv[OF r2 master]
      by (simp add: unq[OF u(3)] unq[OF u(5)] m e endswith_slash u(1))
    from first r1 l1 r2 l2 u(6) show ?thesis by blast
  next
    case tree
    from form_tree[OF tree] obtain u r f where
      u: "uri req = ''/github/'' @ u @ ''/'' @ r @ ''/tree/'' @ f" "u \<noteq> []" "list_all (in_cls Word) u"
         "r \<noteq> []" "list_all (in_cls NotSlash) r" "f \<noteq> []" "list_all (in_cls NotSlash) f"
         "gs = [u, r, f]"
      by blast
    have r1: "find_handler handlers (uri req @ ''/'') = Some (GitHubTreeHandler, [u, r, f, []])"
      using route_tree_slash[OF u(2-7)] u(1) by simp
    have l1: "location (serve env \<lparr>uri = uri req @ ''/'', now = t\<rparr> (fresh c'))
                \<in> {None, Some (''/github/'' @ u @ ''/'' @ url_unescape env r
                                 @ ''/blob/'' @ url_unescape env f @ ''/'')}" for t c'
      using location_tree[of "\<lparr>uri = uri req @ ''/'', now = t\<rparr>" env u "url_unescape env r"
          "url_unescape env f" "[]" c']
      unfolding sv[OF r1 slash]
      by (simp add: unq[OF u(3)] e endswith_slash)
    from first r1 l1 u(8) show ?thesis by blast
  qed
qed

text \<open>The theorem at the user root \<^verbatim>\<open>/github/acme\<close>.\<close>

theorem add_slash_redirect_witness:
  "find_handler handlers (path_of ''/github/acme'') = Some (AddSlashHandler, [''acme''])
   \<and> location (serve example_env \<lparr>uri = ''/github/acme'', now = 0\<rparr> (fresh Map.empty))
       = Some ''/github/acme/''
   \<and> find_handler handlers ''/github/acme/'' = Some (GitHubUserHandler, [''acme''])
   \<and> location (serve example_env \<lparr>uri = ''/github/acme/'', now = 0\<rparr> (fresh Map.empty)) = None"
proof -
  let ?req = "\<lparr>uri = ''/github/acme'', now = 0\<rparr>"
  have r: "find_handler handlers (path_of (uri ?req)) = Some (AddSlashHandler, [''acme''])"
    by code_simp
  have q: "CHR ''?'' \<notin> set (uri ?req)"
    by simp
  have u: "\<forall>s. list_all (in_cls Word) s \<longrightarrow> url_unescape example_env s = s"
    by (simp add: example_env_def)
  from add_slash_redirect[OF r q u, of Map.empty]
  have first: "location (serve example_env ?req (fresh Map.empty)) = Some ''/github/acme/''"
    and rest: "find_handler handlers ''/github/acme/'' = Some (GitHubUserHandler, [''acme''])
       \<and> (\<forall>t c'. location (serve example_env \<lparr>uri = ''/github/acme/'', now = t\<rparr> (fresh c')) = None)"
    by simp_all
  from rest have "location (serve example_env \<lparr>uri = ''/github/acme/'', now = 0\<rparr> (fresh Map.empty)) = None"
    by blast
  with first rest r show ?thesis by simp
qed

text \<open>
  C7 as stated fails at the repo root \<^verbatim>\<open>/github/ipython/ipython\<close>: the target of its redirect
  is redirected again.
\<close>

theorem repo_root_redirects_twice:
  "find_handler handlers (path_of ''/github/ipython/ipython'')
     = Some (AddSlashHandler, [''ipython'', ''ipython''])
   \<and> location (serve example_env \<lparr>uri = ''/github/ipython/ipython'', now = 0\<rparr> (fresh Map.empty))
       = Some ''/github/ipython/ipython/''
   \<and> location (serve example_env \<lparr>uri = ''/github/ipython/ipython/'', now = 0\<rparr> (fresh Map.empty))
       = Some ''/github/ipython/ipython/tree/master/''"
proof -
  have r1: "find_handler handlers (path_of ''/github/ipython/ipython'')
     = Some (AddSlashHandler, [''ipython'', ''ipython''])"
    by code_simp
  have r2: "find_handler handlers (path_of ''/github/ipython/ipython/'')
     = Some (GitHubRepoHandler, [''ipython'', ''ipython''])"
    by code_simp
  show ?thesis
    by (simp add: r1 r2 serve_def AddSlashHandler_get_def GitHubRepoHandler_get_def example_env_def)
qed

subsection \<open>Tree and blob: which requests switch\<close>








end
